theory Spec2Isabelle
  imports Complex_Main
begin

section \<open>Finite differencing routine of \<^verbatim>\<open>include/ceres/internal/numeric_diff.h\<close>\<close>

text \<open>
  The routine is embedded twice.  In the first embedding the C++ type \<^verbatim>\<open>double\<close> is
  idealised as \<^typ>\<open>real\<close>: sums, differences, products and quotients are exact, and
  there is no NaN or infinity.  It serves the statements about the control flow, the
  parameter block, the evaluations and the cells that are written.  The second embedding
  (the names that end in \<open>_d\<close>) keeps the arithmetic of \<^verbatim>\<open>double\<close>, every operation
  rounded as IEEE 754 binary64 rounds it; it serves the statement about the values the
  routine stores in the jacobian.  In both, buffers reached through pointers are lists;
  an \<^verbatim>\<open>int\<close> stays an \<^typ>\<open>int\<close> and is turned into a list position with \<^const>\<open>nat\<close>
  where the source indexes with it.
\<close>

subsection \<open>Constants and types declared outside this header\<close>

text \<open>
  Modelled from the spec: the enumeration \<^verbatim>\<open>NumericDiffMethod\<close> of
  \<^verbatim>\<open>ceres/types.h\<close>, a closed choice between FORWARD and CENTRAL.
\<close>

datatype NumericDiffMethod = CENTRAL | FORWARD

text \<open>
  Modelled from the spec: the sentinel \<^verbatim>\<open>ceres::DYNAMIC\<close> of \<^verbatim>\<open>ceres/types.h\<close>,
  the value of a template constant whose size is known at run time only.  The
  specification names the sentinel and not its value; the value is that of the
  enumerator, \<^verbatim>\<open>DYNAMIC = -1\<close>, which is also \<^verbatim>\<open>Eigen::Dynamic\<close>.
\<close>

definition DYNAMIC :: int where
  "DYNAMIC = - 1"

text \<open>\<^verbatim>\<open>std::numeric_limits<double>::epsilon()\<close> for IEEE binary64.\<close>

definition epsilon :: real where
  "epsilon = 1 / 2 ^ 52"

text \<open>\<^verbatim>\<open>std::max(a, b)\<close> is \<^verbatim>\<open>(a < b) ? b : a\<close>.\<close>

definition std_max :: "real \<Rightarrow> real \<Rightarrow> real" where
  "std_max a b = (if a < b then b else a)"

text \<open>The Eigen storage orders of a mapped matrix.\<close>

datatype StorageOrder = ColMajor | RowMajor

subsection \<open>Template arguments, the cost functor and the memory\<close>

text \<open>
  The template arguments of \<^verbatim>\<open>NumericDiff\<close> that the routine reads.  \<^verbatim>\<open>N0 .. N9\<close>
  are only handed on to \<^verbatim>\<open>EvaluateImpl\<close>.
\<close>

record template_args =
  kMethod :: NumericDiffMethod
  kNumResiduals :: int
  kParameterBlock :: int
  kParameterBlockSize :: int

text \<open>
  A cost functor maps the parameter blocks to its residuals, or reports failure
  (\<^verbatim>\<open>false\<close>) as \<^const>\<open>None\<close>.  Both overloads of \<^verbatim>\<open>EvaluateImpl\<close> hand the
  parameters to it as \<^verbatim>\<open>double const* const*\<close>, so it cannot write to them.
\<close>

type_synonym CostFunctor = "real list list \<Rightarrow> real list option"

text \<open>
  The memory the routine works on: the parameter blocks behind \<^verbatim>\<open>parameters\<close> and
  the buffer behind \<^verbatim>\<open>jacobian\<close>.  Two logs record what the routine has done so
  far, oldest entry first: \<open>evaluations\<close> holds the calls of \<^verbatim>\<open>EvaluateImpl\<close> (the
  point of evaluation and whether it succeeded), and \<open>deltas\<close> holds the values of the
  local \<^verbatim>\<open>delta\<close> of line 147, one for every pass of the loop that was entered.
\<close>

record memory =
  parameters :: "real list list"
  jacobian :: "real list"
  evaluations :: "(real list list \<times> bool) list"
  deltas :: "real list"

text \<open>\<^verbatim>\<open>LOG(FATAL) << msg\<close> writes the message and aborts the process.\<close>

datatype fatal = LOG_FATAL string

subsection \<open>\<^verbatim>\<open>EvaluateImpl\<close>\<close>

definition EvaluateImpl :: "CostFunctor \<Rightarrow> memory \<Rightarrow> real list option \<times> memory" where
  "EvaluateImpl functor M =
     (functor (parameters M),
      M\<lparr>evaluations := evaluations M @ [(parameters M, functor (parameters M) \<noteq> None)]\<rparr>)"

subsection \<open>The mapped views\<close>

text \<open>
  \<^verbatim>\<open>x_plus_delta\<close> is a view of block \<open>k\<close> of the parameters, so the assignment
  \<^verbatim>\<open>x_plus_delta(j) = v\<close> writes into that block.
\<close>

definition x_plus_delta_assign :: "nat \<Rightarrow> nat \<Rightarrow> 'a \<Rightarrow> 'a list list \<Rightarrow> 'a list list" where
  "x_plus_delta_assign k j v ps = ps[k := (ps ! k)[j := v]]"

text \<open>
  \<^verbatim>\<open>JacobianMatrix\<close> is column-major when \<^verbatim>\<open>kParameterBlockSize == 1\<close> and row-major
  otherwise; \<^verbatim>\<open>parameter_jacobian\<close> maps the buffer as a matrix of that order.
\<close>

definition JacobianMatrix_order :: "int \<Rightarrow> StorageOrder" where
  "JacobianMatrix_order kPBS = (if kPBS = 1 then ColMajor else RowMajor)"

definition coeff_index :: "StorageOrder \<Rightarrow> nat \<Rightarrow> nat \<Rightarrow> nat \<Rightarrow> nat \<Rightarrow> nat" where
  "coeff_index ord rows cols i j =
     (case ord of ColMajor \<Rightarrow> i + j * rows | RowMajor \<Rightarrow> i * cols + j)"

text \<open>A coefficient-wise update of column \<open>j\<close>, row after row.\<close>

definition col_update ::
  "StorageOrder \<Rightarrow> nat \<Rightarrow> nat \<Rightarrow> nat \<Rightarrow> (nat \<Rightarrow> 'a \<Rightarrow> 'a) \<Rightarrow> 'a list \<Rightarrow> 'a list" where
  "col_update ord rows cols j h J =
     fold (\<lambda>i J'. J'[coeff_index ord rows cols i j := h i (J' ! coeff_index ord rows cols i j)])
       [0..<rows] J"

text \<open>\<^verbatim>\<open>col(j) = v\<close>, \<^verbatim>\<open>col(j) -= v\<close> and \<^verbatim>\<open>col(j) *= c\<close>.\<close>

definition col_assign :: "StorageOrder \<Rightarrow> nat \<Rightarrow> nat \<Rightarrow> nat \<Rightarrow> real list \<Rightarrow> real list \<Rightarrow> real list" where
  "col_assign ord rows cols j v = col_update ord rows cols j (\<lambda>i a. v ! i)"

definition col_sub :: "StorageOrder \<Rightarrow> nat \<Rightarrow> nat \<Rightarrow> nat \<Rightarrow> real list \<Rightarrow> real list \<Rightarrow> real list" where
  "col_sub ord rows cols j v = col_update ord rows cols j (\<lambda>i a. a - v ! i)"

definition col_scale :: "StorageOrder \<Rightarrow> nat \<Rightarrow> nat \<Rightarrow> nat \<Rightarrow> real \<Rightarrow> real list \<Rightarrow> real list" where
  "col_scale ord rows cols j c = col_update ord rows cols j (\<lambda>i a. a * c)"

subsection \<open>The primary template\<close>

text \<open>Lines 103 to 110: the sizes and the block index the routine works with.\<close>

definition num_residuals_internal :: "template_args \<Rightarrow> int \<Rightarrow> int" where
  "num_residuals_internal T num_residuals =
     (if kNumResiduals T \<noteq> DYNAMIC then kNumResiduals T else num_residuals)"

definition parameter_block_index_internal :: "template_args \<Rightarrow> int \<Rightarrow> int" where
  "parameter_block_index_internal T parameter_block_index =
     (if kParameterBlock T \<noteq> DYNAMIC then kParameterBlock T else parameter_block_index)"

definition parameter_block_size_internal :: "template_args \<Rightarrow> int \<Rightarrow> int" where
  "parameter_block_size_internal T parameter_block_size =
     (if kParameterBlockSize T \<noteq> DYNAMIC then kParameterBlockSize T else parameter_block_size)"

text \<open>Line 134: \<^verbatim>\<open>step_size = x.array().abs() * relative_step_size\<close>.\<close>

definition step_size_of :: "real list \<Rightarrow> real \<Rightarrow> real list" where
  "step_size_of x relative_step_size = map (\<lambda>v. \<bar>v\<bar> * relative_step_size) x"

text \<open>Lines 140 and 141.\<close>

definition min_step_size :: real where
  "min_step_size = sqrt epsilon"

text \<open>Line 147: the perturbation of coordinate \<open>j\<close>.\<close>

definition delta_of :: "real list \<Rightarrow> nat \<Rightarrow> real" where
  "delta_of step_size j = std_max min_step_size (step_size ! j)"

text \<open>
  Lines 147 to 182, one pass of the loop body for coordinate \<open>j\<close>.  The result is
  \<open>(False, M')\<close> where the body leaves the routine with \<^verbatim>\<open>return false\<close>, and
  \<open>(True, M')\<close> where it reaches its end; \<open>M'\<close> is the memory at that moment.
\<close>

definition column_step ::
  "template_args \<Rightarrow> CostFunctor \<Rightarrow> real list \<Rightarrow> nat \<Rightarrow> nat \<Rightarrow> nat \<Rightarrow> real list \<Rightarrow> real list
     \<Rightarrow> nat \<Rightarrow> memory \<Rightarrow> bool \<times> memory" where
  "column_step T functor residuals_at_eval_point rows k cols x step_size j M =
     (let ord = JacobianMatrix_order (kParameterBlockSize T);
          delta = delta_of step_size j;
          M1 = M\<lparr>parameters := x_plus_delta_assign k j (x ! j + delta) (parameters M),
                 deltas := deltas M @ [delta]\<rparr>
      in case EvaluateImpl functor M1 of
           (None, M2) \<Rightarrow> (False, M2)
         | (Some residuals, M2) \<Rightarrow>
             (let M3 = M2\<lparr>jacobian := col_assign ord rows cols j residuals (jacobian M2)\<rparr>;
                  one_over_delta = 1 / delta
              in case
                   (if kMethod T = CENTRAL then
                      (let M4 = M3\<lparr>parameters :=
                                     x_plus_delta_assign k j (x ! j - delta) (parameters M3)\<rparr>
                       in case EvaluateImpl functor M4 of
                            (None, M5) \<Rightarrow> Inl M5
                          | (Some residuals', M5) \<Rightarrow>
                              Inr (M5\<lparr>jacobian :=
                                         col_sub ord rows cols j residuals' (jacobian M5)\<rparr>,
                                   one_over_delta / 2))
                    else
                      Inr (M3\<lparr>jacobian :=
                                 col_sub ord rows cols j residuals_at_eval_point (jacobian M3)\<rparr>,
                           one_over_delta))
                 of
                   Inl M5 \<Rightarrow> (False, M5)
                 | Inr (M6, one_over_delta') \<Rightarrow>
                     (let M7 = M6\<lparr>parameters :=
                                    x_plus_delta_assign k j (x ! j) (parameters M6)\<rparr>
                      in (True, M7\<lparr>jacobian :=
                                    col_scale ord rows cols j one_over_delta' (jacobian M7)\<rparr>))))"

text \<open>Line 146: \<^verbatim>\<open>for (int j = 0; j < parameter_block_size_internal; ++j)\<close>.\<close>

function column_loop ::
  "template_args \<Rightarrow> CostFunctor \<Rightarrow> real list \<Rightarrow> nat \<Rightarrow> nat \<Rightarrow> int \<Rightarrow> real list \<Rightarrow> real list
     \<Rightarrow> int \<Rightarrow> memory \<Rightarrow> bool \<times> memory" where
  "column_loop T functor residuals_at_eval_point rows k size_internal x step_size j M =
     (if j < size_internal then
        (case column_step T functor residuals_at_eval_point rows k (nat size_internal)
                x step_size (nat j) M of
           (False, M') \<Rightarrow> (False, M')
         | (True, M') \<Rightarrow>
             column_loop T functor residuals_at_eval_point rows k size_internal x step_size (j + 1) M')
      else (True, M))"
  by pat_completeness auto
termination
  by (relation "measure (\<lambda>(T, functor, r, rows, k, n, x, s, j, M). nat (n - j))") auto

declare column_loop.simps [simp del]

text \<open>
  \<^verbatim>\<open>NumericDiff<...>::EvaluateJacobianForParameterBlock\<close>, lines 89 to 185.  The result
  is the returned \<^verbatim>\<open>bool\<close> and the memory at the return.
\<close>

definition NumericDiff_EvaluateJacobianForParameterBlock ::
  "template_args \<Rightarrow> CostFunctor \<Rightarrow> real list \<Rightarrow> real \<Rightarrow> int \<Rightarrow> int \<Rightarrow> int \<Rightarrow> memory
     \<Rightarrow> bool \<times> memory" where
  "NumericDiff_EvaluateJacobianForParameterBlock T functor residuals_at_eval_point
       relative_step_size num_residuals parameter_block_index parameter_block_size M =
     (let rows = nat (num_residuals_internal T num_residuals);
          k = nat (parameter_block_index_internal T parameter_block_index);
          size_internal = parameter_block_size_internal T parameter_block_size;
          x = take (nat size_internal) (parameters M ! k);
          step_size = step_size_of x relative_step_size
      in column_loop T functor residuals_at_eval_point rows k size_internal x step_size 0 M)"

subsection \<open>The specialisation for \<^verbatim>\<open>kParameterBlockSize == 0\<close>\<close>

text \<open>Lines 194 to 219: every argument is unused, and control ends in \<^verbatim>\<open>LOG(FATAL)\<close>.\<close>

definition NumericDiff0_EvaluateJacobianForParameterBlock ::
  "template_args \<Rightarrow> CostFunctor \<Rightarrow> real list \<Rightarrow> real \<Rightarrow> int \<Rightarrow> int \<Rightarrow> int \<Rightarrow> memory
     \<Rightarrow> fatal + bool \<times> memory" where
  "NumericDiff0_EvaluateJacobianForParameterBlock T functor residuals_at_eval_point
       relative_step_size num_residuals parameter_block_index parameter_block_size M =
     Inl (LOG_FATAL ''Control should never reach here.'')"

text \<open>
  The compiler selects the partial specialisation exactly when the last template
  argument is \<open>0\<close>, and the primary template otherwise.
\<close>

definition EvaluateJacobianForParameterBlock ::
  "template_args \<Rightarrow> CostFunctor \<Rightarrow> real list \<Rightarrow> real \<Rightarrow> int \<Rightarrow> int \<Rightarrow> int \<Rightarrow> memory
     \<Rightarrow> fatal + bool \<times> memory" where
  "EvaluateJacobianForParameterBlock T functor residuals_at_eval_point
       relative_step_size num_residuals parameter_block_index parameter_block_size M =
     (if kParameterBlockSize T = 0 then
        NumericDiff0_EvaluateJacobianForParameterBlock T functor residuals_at_eval_point
          relative_step_size num_residuals parameter_block_index parameter_block_size M
      else
        Inr (NumericDiff_EvaluateJacobianForParameterBlock T functor residuals_at_eval_point
          relative_step_size num_residuals parameter_block_index parameter_block_size M))"

subsection \<open>The difference quotients\<close>

text \<open>
  The point \<open>x + d * e\<^sub>j\<close>: the parameter blocks with \<open>d\<close> added to coordinate \<open>j\<close>
  of block \<open>k\<close> and nothing else changed.
\<close>

definition perturbed :: "real list list \<Rightarrow> nat \<Rightarrow> nat \<Rightarrow> real \<Rightarrow> real list list" where
  "perturbed ps k j d = ps[k := (ps ! k)[j := ps ! k ! j + d]]"

text \<open>
  \<open>v\<close> is the difference quotient of residual \<open>i\<close> along coordinate \<open>j\<close> with
  step \<open>d\<close>: central for \<^const>\<open>CENTRAL\<close>, forward against \<open>r0\<close> otherwise.
\<close>

definition quotient_ok ::
  "template_args \<Rightarrow> CostFunctor \<Rightarrow> real list \<Rightarrow> real list list \<Rightarrow> nat \<Rightarrow> nat \<Rightarrow> real
     \<Rightarrow> nat \<Rightarrow> real \<Rightarrow> bool" where
  "quotient_ok T f r0 ps k j d i v =
     (\<exists>rp. f (perturbed ps k j d) = Some rp \<and>
        (if kMethod T = CENTRAL
         then \<exists>rm. f (perturbed ps k j (- d)) = Some rm \<and> v = (rp ! i - rm ! i) / (2 * d)
         else v = (rp ! i - r0 ! i) / d))"

subsection \<open>The type \<^verbatim>\<open>double\<close>\<close>

text \<open>
  An IEEE 754 binary64 number: a finite value, an infinity or a NaN.  The two zeros are
  one value here and so are all NaNs; in the source they differ only under operations
  the routine does not perform on them (a division by zero, a copy of the sign or of the
  bits), \<^verbatim>\<open>delta\<close> being never zero.
\<close>

datatype double = Finite real | PInf | NInf | NaN

text \<open>
  Rounding to nearest, ties to even.  \<open>binade x\<close> is the exponent \<open>e\<close> with
  \<open>2\<^sup>e \<le> \<bar>x\<bar> < 2\<^sup>e\<^sup>+\<^sup>1\<close>, and \<open>quantum x\<close> the distance between neighbouring doubles
  there: 52 bits below the leading one, and \<open>2\<^sup>-\<^sup>1\<^sup>0\<^sup>7\<^sup>4\<close> throughout the subnormal range.
  \<open>fl x\<close> is the double nearest to \<open>x\<close>; a result of magnitude \<open>2\<^sup>1\<^sup>0\<^sup>2\<^sup>4\<close> or more
  overflows to the infinity of the sign of \<open>x\<close>.
\<close>

definition binade :: "real \<Rightarrow> int" where
  "binade x = \<lfloor>log 2 \<bar>x\<bar>\<rfloor>"

definition quantum :: "real \<Rightarrow> real" where
  "quantum x = 2 powi (max (binade x) (- 1022) - 52)"

definition round_to_even :: "real \<Rightarrow> int" where
  "round_to_even y =
     (let f = \<lfloor>y\<rfloor>; r = y - of_int f
      in if r < 1 / 2 then f else if 1 / 2 < r then f + 1 else if even f then f else f + 1)"

definition fl :: "real \<Rightarrow> double" where
  "fl x =
     (if x = 0 then Finite 0
      else let y = of_int (round_to_even (x / quantum x)) * quantum x
           in if 2 ^ 1024 \<le> \<bar>y\<bar> then (if 0 < x then PInf else NInf) else Finite y)"

text \<open>
  The operations of the routine: negation, \<^verbatim>\<open>std::abs\<close>, \<^verbatim>\<open>+\<close>, \<^verbatim>\<open>-\<close>, \<^verbatim>\<open>*\<close>,
  \<^verbatim>\<open>/\<close> and \<^verbatim>\<open><\<close>.  On finite operands each is the exact result rounded by
  \<open>fl\<close>; the infinities and NaN follow IEEE 754 (a zero divisor counts as \<open>+0\<close>).
\<close>

definition inf_of_sign :: "bool \<Rightarrow> double" where
  "inf_of_sign negative = (if negative then NInf else PInf)"

fun is_negative :: "double \<Rightarrow> bool" where
  "is_negative (Finite x) = (x < 0)"
| "is_negative NInf = True"
| "is_negative PInf = False"
| "is_negative NaN = False"

fun dneg :: "double \<Rightarrow> double" where
  "dneg (Finite x) = Finite (- x)"
| "dneg PInf = NInf"
| "dneg NInf = PInf"
| "dneg NaN = NaN"

fun dabs :: "double \<Rightarrow> double" where
  "dabs (Finite x) = Finite \<bar>x\<bar>"
| "dabs PInf = PInf"
| "dabs NInf = PInf"
| "dabs NaN = NaN"

definition dadd :: "double \<Rightarrow> double \<Rightarrow> double" where
  "dadd a b =
     (if a = NaN \<or> b = NaN then NaN
      else case (a, b) of
        (Finite x, Finite y) \<Rightarrow> fl (x + y)
      | (Finite x, _) \<Rightarrow> b
      | (_, Finite y) \<Rightarrow> a
      | _ \<Rightarrow> (if a = b then a else NaN))"

definition dsub :: "double \<Rightarrow> double \<Rightarrow> double" where
  "dsub a b = dadd a (dneg b)"

definition dmul :: "double \<Rightarrow> double \<Rightarrow> double" where
  "dmul a b =
     (if a = NaN \<or> b = NaN then NaN
      else case (a, b) of
        (Finite x, Finite y) \<Rightarrow> fl (x * y)
      | _ \<Rightarrow> (if a = Finite 0 \<or> b = Finite 0 then NaN
              else inf_of_sign (is_negative a \<noteq> is_negative b)))"

definition ddiv :: "double \<Rightarrow> double \<Rightarrow> double" where
  "ddiv a b =
     (if a = NaN \<or> b = NaN then NaN
      else case (a, b) of
        (Finite x, Finite y) \<Rightarrow>
          (if y = 0 then (if x = 0 then NaN else inf_of_sign (x < 0)) else fl (x / y))
      | (Finite x, _) \<Rightarrow> Finite 0
      | (_, Finite y) \<Rightarrow> inf_of_sign (is_negative a \<noteq> (y < 0))
      | _ \<Rightarrow> NaN)"

fun dless :: "double \<Rightarrow> double \<Rightarrow> bool" where
  "dless NaN _ = False"
| "dless _ NaN = False"
| "dless (Finite x) (Finite y) = (x < y)"
| "dless NInf NInf = False"
| "dless NInf _ = True"
| "dless _ NInf = False"
| "dless PInf _ = False"
| "dless _ PInf = True"

subsection \<open>The primary template and the specialisation on doubles\<close>

text \<open>
  Lines 89 to 219 once more, with \<^typ>\<open>double\<close> for \<^verbatim>\<open>double\<close> and the rounded
  operations for the exact ones.  The memory is the parameter blocks and the jacobian
  buffer; \<^verbatim>\<open>std::sqrt\<close> is correctly rounded, so \<^verbatim>\<open>min_step_size\<close> is
  \<open>fl (sqrt epsilon)\<close>.
\<close>

type_synonym CostFunctor_d = "double list list \<Rightarrow> double list option"

record memory_d =
  parameters_d :: "double list list"
  jacobian_d :: "double list"

definition EvaluateImpl_d :: "CostFunctor_d \<Rightarrow> memory_d \<Rightarrow> double list option" where
  "EvaluateImpl_d functor M = functor (parameters_d M)"

definition std_max_d :: "double \<Rightarrow> double \<Rightarrow> double" where
  "std_max_d a b = (if dless a b then b else a)"

definition col_assign_d ::
  "StorageOrder \<Rightarrow> nat \<Rightarrow> nat \<Rightarrow> nat \<Rightarrow> double list \<Rightarrow> double list \<Rightarrow> double list" where
  "col_assign_d ord rows cols j v = col_update ord rows cols j (\<lambda>i a. v ! i)"

definition col_sub_d ::
  "StorageOrder \<Rightarrow> nat \<Rightarrow> nat \<Rightarrow> nat \<Rightarrow> double list \<Rightarrow> double list \<Rightarrow> double list" where
  "col_sub_d ord rows cols j v = col_update ord rows cols j (\<lambda>i a. dsub a (v ! i))"

definition col_scale_d ::
  "StorageOrder \<Rightarrow> nat \<Rightarrow> nat \<Rightarrow> nat \<Rightarrow> double \<Rightarrow> double list \<Rightarrow> double list" where
  "col_scale_d ord rows cols j c = col_update ord rows cols j (\<lambda>i a. dmul a c)"

definition step_size_of_d :: "double list \<Rightarrow> double \<Rightarrow> double list" where
  "step_size_of_d x relative_step_size = map (\<lambda>v. dmul (dabs v) relative_step_size) x"

definition min_step_size_d :: double where
  "min_step_size_d = fl (sqrt epsilon)"

definition delta_of_d :: "double list \<Rightarrow> nat \<Rightarrow> double" where
  "delta_of_d step_size j = std_max_d min_step_size_d (step_size ! j)"

definition column_step_d ::
  "template_args \<Rightarrow> CostFunctor_d \<Rightarrow> double list \<Rightarrow> nat \<Rightarrow> nat \<Rightarrow> nat \<Rightarrow> double list
     \<Rightarrow> double list \<Rightarrow> nat \<Rightarrow> memory_d \<Rightarrow> bool \<times> memory_d" where
  "column_step_d T functor residuals_at_eval_point rows k cols x step_size j M =
     (let ord = JacobianMatrix_order (kParameterBlockSize T);
          delta = delta_of_d step_size j;
          M1 = M\<lparr>parameters_d :=
                   x_plus_delta_assign k j (dadd (x ! j) delta) (parameters_d M)\<rparr>
      in case EvaluateImpl_d functor M1 of
           None \<Rightarrow> (False, M1)
         | Some residuals \<Rightarrow>
             (let M3 = M1\<lparr>jacobian_d := col_assign_d ord rows cols j residuals (jacobian_d M1)\<rparr>;
                  one_over_delta = ddiv (Finite 1) delta
              in case
                   (if kMethod T = CENTRAL then
                      (let M4 = M3\<lparr>parameters_d :=
                                     x_plus_delta_assign k j (dsub (x ! j) delta)
                                       (parameters_d M3)\<rparr>
                       in case EvaluateImpl_d functor M4 of
                            None \<Rightarrow> Inl M4
                          | Some residuals' \<Rightarrow>
                              Inr (M4\<lparr>jacobian_d :=
                                         col_sub_d ord rows cols j residuals' (jacobian_d M4)\<rparr>,
                                   ddiv one_over_delta (Finite 2)))
                    else
                      Inr (M3\<lparr>jacobian_d :=
                                 col_sub_d ord rows cols j residuals_at_eval_point
                                   (jacobian_d M3)\<rparr>,
                           one_over_delta))
                 of
                   Inl M5 \<Rightarrow> (False, M5)
                 | Inr (M6, one_over_delta') \<Rightarrow>
                     (let M7 = M6\<lparr>parameters_d :=
                                    x_plus_delta_assign k j (x ! j) (parameters_d M6)\<rparr>
                      in (True, M7\<lparr>jacobian_d :=
                                    col_scale_d ord rows cols j one_over_delta'
                                      (jacobian_d M7)\<rparr>))))"

function column_loop_d ::
  "template_args \<Rightarrow> CostFunctor_d \<Rightarrow> double list \<Rightarrow> nat \<Rightarrow> nat \<Rightarrow> int \<Rightarrow> double list
     \<Rightarrow> double list \<Rightarrow> int \<Rightarrow> memory_d \<Rightarrow> bool \<times> memory_d" where
  "column_loop_d T functor residuals_at_eval_point rows k size_internal x step_size j M =
     (if j < size_internal then
        (case column_step_d T functor residuals_at_eval_point rows k (nat size_internal)
                x step_size (nat j) M of
           (False, M') \<Rightarrow> (False, M')
         | (True, M') \<Rightarrow>
             column_loop_d T functor residuals_at_eval_point rows k size_internal x step_size
               (j + 1) M')
      else (True, M))"
  by pat_completeness auto
termination
  by (relation "measure (\<lambda>(T, functor, r, rows, k, n, x, s, j, M). nat (n - j))") auto

declare column_loop_d.simps [simp del]

definition EvaluateJacobianForParameterBlock_d ::
  "template_args \<Rightarrow> CostFunctor_d \<Rightarrow> double list \<Rightarrow> double \<Rightarrow> int \<Rightarrow> int \<Rightarrow> int \<Rightarrow> memory_d
     \<Rightarrow> fatal + bool \<times> memory_d" where
  "EvaluateJacobianForParameterBlock_d T functor residuals_at_eval_point
       relative_step_size num_residuals parameter_block_index parameter_block_size M =
     (if kParameterBlockSize T = 0 then Inl (LOG_FATAL ''Control should never reach here.'')
      else
        (let rows = nat (num_residuals_internal T num_residuals);
             k = nat (parameter_block_index_internal T parameter_block_index);
             size_internal = parameter_block_size_internal T parameter_block_size;
             x = take (nat size_internal) (parameters_d M ! k);
             step_size = step_size_of_d x relative_step_size
         in Inr (column_loop_d T functor residuals_at_eval_point rows k size_internal x
                   step_size 0 M)))"

text \<open>
  \<open>v\<close> is the scaled difference of residual \<open>i\<close> along coordinate \<open>j\<close> with step \<open>d\<close>,
  as the routine computes it: the difference of the residuals at the rounded points,
  times the rounded reciprocal of the step (halved for \<^const>\<open>CENTRAL\<close>).
\<close>

definition scaled_difference_ok ::
  "template_args \<Rightarrow> CostFunctor_d \<Rightarrow> double list \<Rightarrow> double list list \<Rightarrow> nat \<Rightarrow> nat \<Rightarrow> double
     \<Rightarrow> nat \<Rightarrow> double \<Rightarrow> bool" where
  "scaled_difference_ok T f r0 ps k j d i v =
     (\<exists>rp. f (ps[k := (ps ! k)[j := dadd (ps ! k ! j) d]]) = Some rp \<and>
        (if kMethod T = CENTRAL
         then \<exists>rm. f (ps[k := (ps ! k)[j := dsub (ps ! k ! j) d]]) = Some rm \<and>
                v = dmul (dsub (rp ! i) (rm ! i)) (ddiv (ddiv (Finite 1) d) (Finite 2))
         else v = dmul (dsub (rp ! i) (r0 ! i)) (ddiv (Finite 1) d)))"

subsection \<open>Concrete calls\<close>

text \<open>
  The scenario of the specification: \<open>f(x) = [x0\<^sup>2, x0 * x1]\<close> at the block
  \<open>[2, 3]\<close>, with a relative step size of \<open>10\<^sup>-\<^sup>6\<close>.
\<close>

definition ex_forward :: template_args where
  "ex_forward = \<lparr>kMethod = FORWARD, kNumResiduals = 2, kParameterBlock = 0,
     kParameterBlockSize = 2\<rparr>"

definition ex_central :: template_args where
  "ex_central = \<lparr>kMethod = CENTRAL, kNumResiduals = 2, kParameterBlock = 0,
     kParameterBlockSize = 2\<rparr>"

definition ex_dynamic :: template_args where
  "ex_dynamic = \<lparr>kMethod = CENTRAL, kNumResiduals = DYNAMIC, kParameterBlock = DYNAMIC,
     kParameterBlockSize = DYNAMIC\<rparr>"

definition ex_functor :: CostFunctor where
  "ex_functor ps = Some [ps ! 0 ! 0 * ps ! 0 ! 0, ps ! 0 ! 0 * ps ! 0 ! 1]"

text \<open>A functor that fails everywhere, and one that fails once \<open>x1\<close> leaves \<open>3\<close>.\<close>

definition ex_failing :: CostFunctor where
  "ex_failing ps = None"

definition ex_partial :: CostFunctor where
  "ex_partial ps = (if ps ! 0 ! 1 = 3 then ex_functor ps else None)"

definition ex_memory :: memory where
  "ex_memory = \<lparr>parameters = [[2, 3]], jacobian = [0, 0, 0, 0], evaluations = [],
     deltas = []\<rparr>"


text \<open>
  Two parameter blocks, the functor reading the second one, and a jacobian buffer with
  one cell more than the four coefficients.
\<close>

definition ex_functor1 :: CostFunctor where
  "ex_functor1 ps = Some [ps ! 1 ! 0 * ps ! 1 ! 0, ps ! 1 ! 0 * ps ! 1 ! 1]"

definition ex_two_blocks :: memory where
  "ex_two_blocks = \<lparr>parameters = [[7], [2, 3]], jacobian = [0, 0, 0, 0, 5], evaluations = [],
     deltas = []\<rparr>"

text \<open>
  One residual \<open>f(x) = 5 x / 3\<close> of one parameter, computed in doubles, at \<open>x = 3\<close> with
  a relative step size of \<open>1\<close>.
\<close>

definition ex_slope :: CostFunctor_d where
  "ex_slope ps = Some [ddiv (dmul (Finite 5) (ps ! 0 ! 0)) (Finite 3)]"

definition ex_one_by_one :: template_args where
  "ex_one_by_one = \<lparr>kMethod = FORWARD, kNumResiduals = 1, kParameterBlock = 0,
     kParameterBlockSize = 1\<rparr>"

definition ex_memory_d :: memory_d where
  "ex_memory_d = \<lparr>parameters_d = [[Finite 3]], jacobian_d = [Finite 0]\<rparr>"

section \<open>Basic facts\<close>

lemma min_step_size_eq: "min_step_size = 1 / 67108864"
  unfolding min_step_size_def
  by (rule real_sqrt_unique) (simp_all add: epsilon_def power2_eq_square)

lemma std_max_ge: "a \<le> std_max a b"
  by (simp add: std_max_def)


lemma assign_overwrite:
  "x_plus_delta_assign k j b (x_plus_delta_assign k j a ps) = x_plus_delta_assign k j b ps"
  by (cases "k < length ps") (simp_all add: x_plus_delta_assign_def list_update_beyond)

lemma assign_same: "x_plus_delta_assign k j (ps ! k ! j) ps = ps"
  by (simp add: x_plus_delta_assign_def)

subsection \<open>Evaluating the concrete calls\<close>

lemmas run_simps =
  EvaluateJacobianForParameterBlock_def NumericDiff_EvaluateJacobianForParameterBlock_def
  NumericDiff0_EvaluateJacobianForParameterBlock_def column_loop.simps column_step_def
  num_residuals_internal_def parameter_block_index_internal_def
  parameter_block_size_internal_def step_size_of_def delta_of_def std_max_def
  min_step_size_eq DYNAMIC_def EvaluateImpl_def x_plus_delta_assign_def
  JacobianMatrix_order_def coeff_index_def col_update_def col_assign_def col_sub_def
  col_scale_def Let_def upt_rec ex_forward_def ex_central_def ex_dynamic_def ex_functor_def
  ex_failing_def ex_partial_def ex_memory_def

lemma ex_forward_run:
  "EvaluateJacobianForParameterBlock ex_forward ex_functor [4, 6] (1 / 1000000) 2 0 2 ex_memory =
     Inr (True, \<lparr>parameters = [[2, 3]], jacobian = [2000001 / 500000, 0, 3, 2],
       evaluations = [([[1000001 / 500000, 3]], True), ([[2, 3000003 / 1000000]], True)],
       deltas = [1 / 500000, 3 / 1000000]\<rparr>)"
  by (simp add: run_simps)

lemma ex_central_run:
  "EvaluateJacobianForParameterBlock ex_central ex_functor [] (1 / 1000000) 2 0 2 ex_memory =
     Inr (True, \<lparr>parameters = [[2, 3]], jacobian = [4, 0, 3, 2],
       evaluations = [([[1000001 / 500000, 3]], True), ([[999999 / 500000, 3]], True),
          ([[2, 3000003 / 1000000]], True), ([[2, 2999997 / 1000000]], True)],
       deltas = [1 / 500000, 3 / 1000000]\<rparr>)"
  by (simp add: run_simps)

lemma ex_failing_run:
  "EvaluateJacobianForParameterBlock ex_forward ex_failing [4, 6] (1 / 1000000) 2 0 2 ex_memory =
     Inr (False, \<lparr>parameters = [[1000001 / 500000, 3]], jacobian = [0, 0, 0, 0],
       evaluations = [([[1000001 / 500000, 3]], False)],
       deltas = [1 / 500000]\<rparr>)"
  by (simp add: run_simps)

lemma ex_partial_run:
  "EvaluateJacobianForParameterBlock ex_forward ex_partial [4, 6] (1 / 1000000) 2 0 2 ex_memory =
     Inr (False, \<lparr>parameters = [[2, 3000003 / 1000000]], jacobian = [2000001 / 500000, 0, 3, 0],
       evaluations = [([[1000001 / 500000, 3]], True), ([[2, 3000003 / 1000000]], False)],
       deltas = [1 / 500000, 3 / 1000000]\<rparr>)"
  by (simp add: run_simps)


lemma ex_two_blocks_run:
  "EvaluateJacobianForParameterBlock ex_dynamic ex_functor1 [] (1 / 1000000) 2 1 2 ex_two_blocks =
     Inr (True, \<lparr>parameters = [[7], [2, 3]], jacobian = [4, 0, 3, 2, 5],
       evaluations = [([[7], [1000001 / 500000, 3]], True), ([[7], [999999 / 500000, 3]], True),
          ([[7], [2, 3000003 / 1000000]], True), ([[7], [2, 2999997 / 1000000]], True)],
       deltas = [1 / 500000, 3 / 1000000]\<rparr>)"
  by (simp add: run_simps ex_two_blocks_def ex_functor1_def)

lemma sqrt_epsilon: "sqrt epsilon = 1 / 67108864"
  using min_step_size_eq by (simp add: min_step_size_def)


section \<open>The step size\<close>





text \<open>
  Claim C10.  For every block, every relative step size (zero and negative ones too) and
  every index, the perturbation is at least \<open>sqrt epsilon\<close>, which is positive; so both
  divisors, \<open>delta\<close> of the forward and \<open>2 * delta\<close> of the central quotient, are
  positive and \<^verbatim>\<open>1.0 / delta\<close> never divides by zero.
\<close>

theorem divisor_is_positive:
  "0 < sqrt epsilon \<and> sqrt epsilon \<le> delta_of (step_size_of x relative_step_size) j \<and>
   0 < delta_of (step_size_of x relative_step_size) j \<and>
   0 < 2 * delta_of (step_size_of x relative_step_size) j"
proof -
  have a: "0 < sqrt epsilon" by (simp add: epsilon_def)
  have b: "sqrt epsilon \<le> delta_of (step_size_of x relative_step_size) j"
    by (simp add: delta_of_def min_step_size_def std_max_ge)
  from a b show ?thesis by linarith
qed

section \<open>The degenerate block sizes\<close>

text \<open>
  Claim C6.  The call ends in the fatal log message exactly when the template constant
  \<^verbatim>\<open>kParameterBlockSize\<close> is \<open>0\<close>, and returns a \<^verbatim>\<open>bool\<close> exactly when it is not:
  the fatal end is no failure return, and no instantiation with another block size
  reaches it.
\<close>

theorem zero_size_specialisation_is_fatal:
  "(EvaluateJacobianForParameterBlock T functor residuals_at_eval_point relative_step_size
      num_residuals parameter_block_index parameter_block_size M =
    Inl (LOG_FATAL ''Control should never reach here.'')) = (kParameterBlockSize T = 0) \<and>
   ((\<exists>b M'. EvaluateJacobianForParameterBlock T functor residuals_at_eval_point relative_step_size
      num_residuals parameter_block_index parameter_block_size M = Inr (b, M')) =
    (kParameterBlockSize T \<noteq> 0))"
  by (simp add: EvaluateJacobianForParameterBlock_def NumericDiff0_EvaluateJacobianForParameterBlock_def
      split_paired_all prod_eq_iff)

text \<open>
  Claim C9.  When \<^verbatim>\<open>kParameterBlockSize\<close> is \<^const>\<open>DYNAMIC\<close> and the run-time block
  size is \<open>0\<close>, the call is not fatal: it returns \<^verbatim>\<open>true\<close> and leaves the memory as it
  was, so the jacobian buffer is untouched and the functor has not been called.
\<close>

theorem dynamic_zero_size_returns_true:
  "kParameterBlockSize T = DYNAMIC \<Longrightarrow>
   EvaluateJacobianForParameterBlock T functor residuals_at_eval_point relative_step_size
     num_residuals parameter_block_index 0 M = Inr (True, M)"
  by (simp add: EvaluateJacobianForParameterBlock_def NumericDiff_EvaluateJacobianForParameterBlock_def
      parameter_block_size_internal_def DYNAMIC_def column_loop.simps)

theorem dynamic_zero_size_returns_true_witness:
  "kParameterBlockSize ex_dynamic = DYNAMIC \<and>
   EvaluateJacobianForParameterBlock ex_dynamic ex_functor [] (1 / 1000000) 2 0 0 ex_memory =
     Inr (True, ex_memory)"
  using dynamic_zero_size_returns_true[of ex_dynamic ex_functor "[]" "1 / 1000000" 2 0 ex_memory]
  by (simp add: ex_dynamic_def)

section \<open>The parameter block\<close>

lemma column_step_parameters:
  assumes "column_step T f r0 rows k cols x s j M = (True, M')"
    and "x ! j = parameters M ! k ! j"
  shows "parameters M' = parameters M"
  using assms
  by (auto simp: column_step_def Let_def EvaluateImpl_def assign_overwrite assign_same
      split: option.splits if_splits)

lemma column_loop_parameters:
  "column_loop T f r0 rows k n x s j M = (True, M') \<Longrightarrow> 0 \<le> j \<Longrightarrow>
   x = take (nat n) (parameters M ! k) \<Longrightarrow> parameters M' = parameters M"
proof (induction T f r0 rows k n x s j M rule: column_loop.induct)
  case (1 T f r0 rows k n x s j M)
  show ?case
  proof (cases "j < n")
    case False
    with "1.prems" show ?thesis by (simp add: column_loop.simps)
  next
    case True
    obtain b M1 where st: "column_step T f r0 rows k (nat n) x s (nat j) M = (b, M1)"
      by (cases "column_step T f r0 rows k (nat n) x s (nat j) M")
    with True "1.prems"(1) have b: "b"
      and rest: "column_loop T f r0 rows k n x s (j + 1) M1 = (True, M')"
      by (auto simp: column_loop.simps[of T f r0 rows k n x s j M] split: bool.splits)
    from True "1.prems" have "x ! nat j = parameters M ! k ! nat j" by simp
    with st b have p: "parameters M1 = parameters M"
      using column_step_parameters[of T f r0 rows k "nat n" x s "nat j" M M1] by simp
    have "parameters M' = parameters M1"
      using "1.IH"[OF True st[symmetric] _ rest] b p "1.prems" by simp
    with p show ?thesis by simp
  qed
qed

text \<open>
  Claim C4.  Whenever the call returns \<^verbatim>\<open>true\<close>, the parameter blocks after the call
  are the parameter blocks before it: every coordinate that was perturbed has been
  written back from the copy \<open>x\<close> taken at entry.
\<close>

theorem successful_call_restores_parameters:
  "EvaluateJacobianForParameterBlock T functor residuals_at_eval_point relative_step_size
     num_residuals parameter_block_index parameter_block_size M = Inr (True, M')
   \<Longrightarrow> parameters M' = parameters M"
  by (auto simp: EvaluateJacobianForParameterBlock_def
      NumericDiff_EvaluateJacobianForParameterBlock_def
      NumericDiff0_EvaluateJacobianForParameterBlock_def Let_def
      split: if_splits dest: column_loop_parameters)

theorem successful_call_restores_parameters_witness:
  "EvaluateJacobianForParameterBlock ex_forward ex_functor [4, 6] (1 / 1000000) 2 0 2 ex_memory =
     Inr (True, \<lparr>parameters = [[2, 3]], jacobian = [2000001 / 500000, 0, 3, 2],
       evaluations = [([[1000001 / 500000, 3]], True), ([[2, 3000003 / 1000000]], True)],
       deltas = [1 / 500000, 3 / 1000000]\<rparr>) \<and>
   parameters \<lparr>parameters = [[2, 3]], jacobian = [2000001 / 500000, 0, 3, 2],
       evaluations = [([[1000001 / 500000, 3]], True), ([[2, 3000003 / 1000000]], True)],
       deltas = [1 / 500000, 3 / 1000000]\<rparr> =
   parameters ex_memory"
  using successful_call_restores_parameters[OF ex_forward_run] ex_forward_run by simp

text \<open>
  Claim C2 says that a failure of the first evaluation of a coordinate (at
  \<open>x + delta * e\<^sub>j\<close>) returns with that coordinate restored.  The routine returns at
  line 152 without writing \<open>x\<^sub>j\<close> back: with a functor that always fails, the call on
  the block \<open>[2, 3]\<close> returns \<^verbatim>\<open>false\<close> and leaves the block at \<open>[2.000002, 3]\<close>.
\<close>

theorem forward_failure_leaves_coordinate_perturbed:
  "EvaluateJacobianForParameterBlock ex_forward ex_failing [4, 6] (1 / 1000000) 2 0 2 ex_memory =
     Inr (False, \<lparr>parameters = [[1000001 / 500000, 3]], jacobian = [0, 0, 0, 0],
       evaluations = [([[1000001 / 500000, 3]], False)],
       deltas = [1 / 500000]\<rparr>) \<and>
   parameters ex_memory = [[2, 3]] \<and>
   [[1000001 / 500000, 3]] \<noteq> parameters ex_memory"
  using ex_failing_run by (simp add: ex_memory_def)

section \<open>The result is independent of unused arguments\<close>

lemma column_step_central:
  "kMethod T = CENTRAL \<Longrightarrow>
   column_step T f r0 rows k cols x s j M = column_step T f r0' rows k cols x s j M"
  by (simp add: column_step_def Let_def split: prod.splits option.splits)

lemma column_loop_central:
  "kMethod T = CENTRAL \<Longrightarrow>
   column_loop T f r0 rows k n x s j M = column_loop T f r0' rows k n x s j M"
proof (induction T f r0 rows k n x s j M rule: column_loop.induct)
  case (1 T f r0 rows k n x s j M)
  show ?case
  proof (cases "j < n")
    case False
    then show ?thesis by (simp add: column_loop.simps)
  next
    case True
    obtain b M1 where st: "column_step T f r0 rows k (nat n) x s (nat j) M = (b, M1)"
      by (cases "column_step T f r0 rows k (nat n) x s (nat j) M")
    then have st': "column_step T f r0' rows k (nat n) x s (nat j) M = (b, M1)"
      using column_step_central[OF "1.prems"] by metis
    show ?thesis
    proof (cases b)
      case False
      with True st st' show ?thesis
        by (simp add: column_loop.simps[of T f _ rows k n x s j M])
    next
      case b: True
      have "column_loop T f r0 rows k n x s (j + 1) M1 = column_loop T f r0' rows k n x s (j + 1) M1"
        using "1.IH"[OF True st[symmetric] _ "1.prems"] b by simp
      with True st st' b show ?thesis
        by (simp add: column_loop.simps[of T f _ rows k n x s j M])
    qed
  qed
qed

text \<open>
  Claim C8.  With the method \<^const>\<open>CENTRAL\<close>, two calls that differ in
  \<^verbatim>\<open>residuals_at_eval_point\<close> only have the same outcome: the same returned value and
  the same memory, the jacobian buffer included.
\<close>

theorem central_ignores_residuals_at_eval_point:
  "kMethod T = CENTRAL \<Longrightarrow>
   EvaluateJacobianForParameterBlock T functor residuals_at_eval_point relative_step_size
     num_residuals parameter_block_index parameter_block_size M =
   EvaluateJacobianForParameterBlock T functor residuals_at_eval_point' relative_step_size
     num_residuals parameter_block_index parameter_block_size M"
  by (simp add: EvaluateJacobianForParameterBlock_def NumericDiff_EvaluateJacobianForParameterBlock_def
      NumericDiff0_EvaluateJacobianForParameterBlock_def Let_def
      column_loop_central[where ?r0.0 = residuals_at_eval_point and r0' = "residuals_at_eval_point'"])

theorem central_ignores_residuals_at_eval_point_witness:
  "kMethod ex_central = CENTRAL \<and>
   EvaluateJacobianForParameterBlock ex_central ex_functor [] (1 / 1000000) 2 0 2 ex_memory =
   EvaluateJacobianForParameterBlock ex_central ex_functor [4, 6] (1 / 1000000) 2 0 2 ex_memory"
  using central_ignores_residuals_at_eval_point[of ex_central ex_functor "[]" "1 / 1000000" 2 0 2 ex_memory "[4, 6]"]
  by (simp add: ex_central_def)

section \<open>The evaluations of the functor\<close>

lemma column_step_log:
  assumes "column_step T f r0 rows k cols x s j M = (b, M')"
  shows "\<exists>new. evaluations M' = evaluations M @ new \<and> new \<noteq> [] \<and>
           b = (\<forall>e\<in>set new. snd e) \<and> (\<forall>e\<in>set (butlast new). snd e) \<and>
           (\<forall>e\<in>set new. snd e = (f (fst e) \<noteq> None))"
  using assms
  by (auto simp: column_step_def Let_def EvaluateImpl_def split: option.splits if_splits)

lemma column_loop_log:
  "column_loop T f r0 rows k n x s j M = (b, M') \<Longrightarrow>
   \<exists>new. evaluations M' = evaluations M @ new \<and>
           b = (\<forall>e\<in>set new. snd e) \<and> (\<forall>e\<in>set (butlast new). snd e) \<and>
           (\<forall>e\<in>set new. snd e = (f (fst e) \<noteq> None))"
proof (induction T f r0 rows k n x s j M rule: column_loop.induct)
  case (1 T f r0 rows k n x s j M)
  show ?case
  proof (cases "j < n")
    case False
    with "1.prems" show ?thesis by (simp add: column_loop.simps)
  next
    case True
    obtain b1 M1 where st: "column_step T f r0 rows k (nat n) x s (nat j) M = (b1, M1)"
      by (cases "column_step T f r0 rows k (nat n) x s (nat j) M")
    from column_step_log[OF st] obtain new1 where n1:
      "evaluations M1 = evaluations M @ new1" "new1 \<noteq> []" "b1 = (\<forall>e\<in>set new1. snd e)"
      "\<forall>e\<in>set (butlast new1). snd e" "\<forall>e\<in>set new1. snd e = (f (fst e) \<noteq> None)"
      by blast
    show ?thesis
    proof (cases b1)
      case False
      with True st "1.prems" have "b = False" "M' = M1"
        by (simp_all add: column_loop.simps[of T f r0 rows k n x s j M])
      with n1 False show ?thesis by blast
    next
      case b1: True
      with True st "1.prems" have rest: "column_loop T f r0 rows k n x s (j + 1) M1 = (b, M')"
        by (simp add: column_loop.simps[of T f r0 rows k n x s j M])
      from "1.IH"[OF True st[symmetric] _ rest] b1 obtain new2 where n2:
        "evaluations M' = evaluations M1 @ new2" "b = (\<forall>e\<in>set new2. snd e)"
        "\<forall>e\<in>set (butlast new2). snd e" "\<forall>e\<in>set new2. snd e = (f (fst e) \<noteq> None)"
        by auto
      have all1: "\<forall>e\<in>set new1. snd e" using n1(3) b1 by simp
      have "evaluations M' = evaluations M @ (new1 @ new2)" using n1(1) n2(1) by simp
      moreover have "b = (\<forall>e\<in>set (new1 @ new2). snd e)" using all1 n2(2) by auto
      moreover have "\<forall>e\<in>set (butlast (new1 @ new2)). snd e"
        using all1 n2(3) by (auto simp: butlast_append dest: in_set_butlastD)
      moreover have "\<forall>e\<in>set (new1 @ new2). snd e = (f (fst e) \<noteq> None)"
        using n1(5) n2(4) by auto
      ultimately show ?thesis by blast
    qed
  qed
qed

lemma first_failure_is_only:
  "\<forall>e\<in>set (butlast new). snd e \<Longrightarrow> new \<noteq> [] \<Longrightarrow> \<not> snd (hd new) \<Longrightarrow> length new = 1"
  by (cases new; cases "tl new") auto

text \<open>
  Claim C5.  Let \<open>new\<close> be the evaluations that a returning call has added to the log.
  Each entry records whether the functor succeeded at its point; the call returns
  \<^verbatim>\<open>true\<close> exactly when all of them succeeded; every evaluation but the last one
  succeeded, so nothing is evaluated after a failure; and when the very first
  evaluation fails it is the only one.
\<close>

theorem returns_true_iff_all_evaluations_succeed:
  "EvaluateJacobianForParameterBlock T functor residuals_at_eval_point relative_step_size
     num_residuals parameter_block_index parameter_block_size M = Inr (b, M') \<Longrightarrow>
   \<exists>new. evaluations M' = evaluations M @ new \<and>
     (\<forall>e\<in>set new. snd e = (functor (fst e) \<noteq> None)) \<and>
     b = (\<forall>e\<in>set new. snd e) \<and>
     (\<forall>e\<in>set (butlast new). snd e) \<and>
     (new \<noteq> [] \<and> \<not> snd (hd new) \<longrightarrow> length new = 1)"
proof -
  assume "EvaluateJacobianForParameterBlock T functor residuals_at_eval_point relative_step_size
     num_residuals parameter_block_index parameter_block_size M = Inr (b, M')"
  then have "\<exists>rows k n x s.
      column_loop T functor residuals_at_eval_point rows k n x s 0 M = (b, M')"
    by (simp add: EvaluateJacobianForParameterBlock_def
        NumericDiff_EvaluateJacobianForParameterBlock_def
        NumericDiff0_EvaluateJacobianForParameterBlock_def Let_def split: if_splits) blast
  then obtain rows k n x s where
    "column_loop T functor residuals_at_eval_point rows k n x s 0 M = (b, M')" by blast
  from column_loop_log[OF this] obtain new where n:
    "evaluations M' = evaluations M @ new" "b = (\<forall>e\<in>set new. snd e)"
    "\<forall>e\<in>set (butlast new). snd e" "\<forall>e\<in>set new. snd e = (functor (fst e) \<noteq> None)"
    by blast
  from n(3) have "new \<noteq> [] \<and> \<not> snd (hd new) \<longrightarrow> length new = 1"
    using first_failure_is_only by blast
  with n show ?thesis by blast
qed

theorem returns_true_iff_all_evaluations_succeed_witness:
  "EvaluateJacobianForParameterBlock ex_forward ex_partial [4, 6] (1 / 1000000) 2 0 2 ex_memory =
     Inr (False, \<lparr>parameters = [[2, 3000003 / 1000000]], jacobian = [2000001 / 500000, 0, 3, 0],
       evaluations = [([[1000001 / 500000, 3]], True), ([[2, 3000003 / 1000000]], False)],
       deltas = [1 / 500000, 3 / 1000000]\<rparr>) \<and>
   (\<exists>new. evaluations \<lparr>parameters = [[2, 3000003 / 1000000]],
        jacobian = [2000001 / 500000, 0, 3, 0],
        evaluations = [([[1000001 / 500000, 3]], True), ([[2, 3000003 / 1000000]], False)],
       deltas = [1 / 500000, 3 / 1000000]\<rparr> =
        evaluations ex_memory @ new \<and>
     (\<forall>e\<in>set new. snd e = (ex_partial (fst e) \<noteq> None)) \<and>
     False = (\<forall>e\<in>set new. snd e) \<and>
     (\<forall>e\<in>set (butlast new). snd e) \<and>
     (new \<noteq> [] \<and> \<not> snd (hd new) \<longrightarrow> length new = 1))"
  using returns_true_iff_all_evaluations_succeed[OF ex_partial_run] ex_partial_run by simp

section \<open>The columns of the jacobian\<close>

text \<open>
  Which cells of the buffer a pass of the loop writes, and what it leaves there in the
  exact arithmetic of this theory.  The rounding of the double operations is not part of
  the model, so the values below are those of the idealised routine.
\<close>

lemma coeff_index_less:
  assumes "i < rows" "j < cols"
  shows "coeff_index ord rows cols i j < rows * cols"
proof (cases ord)
  case ColMajor
  have "i + j * rows < rows + j * rows" using assms by simp
  also have "\<dots> = Suc j * rows" by simp
  also have "\<dots> \<le> cols * rows" using assms by (intro mult_le_mono1) simp
  finally show ?thesis using ColMajor by (simp add: coeff_index_def mult.commute)
next
  case RowMajor
  have "i * cols + j < i * cols + cols" using assms by simp
  also have "\<dots> = Suc i * cols" by simp
  also have "\<dots> \<le> rows * cols" using assms by (intro mult_le_mono1) simp
  finally show ?thesis using RowMajor by (simp add: coeff_index_def)
qed

lemma coeff_index_inj:
  assumes "i < rows" "i' < rows" "j < cols" "j' < cols"
    and "coeff_index ord rows cols i j = coeff_index ord rows cols i' j'"
  shows "i = i' \<and> j = j'"
proof (cases ord)
  case ColMajor
  with assms have e: "i + j * rows = i' + j' * rows" by (simp add: coeff_index_def)
  from e have "(i + j * rows) mod rows = (i' + j' * rows) mod rows" by simp
  with assms have i: "i = i'" by simp
  from e have "(i + j * rows) div rows = (i' + j' * rows) div rows" by simp
  with assms have "j = j'" by simp
  with i show ?thesis by simp
next
  case RowMajor
  with assms have e: "i * cols + j = i' * cols + j' " by (simp add: coeff_index_def)
  from e have "(i * cols + j) mod cols = (i' * cols + j') mod cols" by simp
  with assms have j: "j = j'" by simp
  from e have "(i * cols + j) div cols = (i' * cols + j') div cols" by simp
  with assms have "i = i'" by simp
  with j show ?thesis by simp
qed

lemma fold_update:
  assumes "inj_on g {..<r}" "\<forall>i<r. g i < length J"
  shows "length (fold (\<lambda>i J'. J'[g i := h i (J' ! g i)]) [0..<r] J) = length J \<and>
         (\<forall>i<r. fold (\<lambda>i J'. J'[g i := h i (J' ! g i)]) [0..<r] J ! g i = h i (J ! g i)) \<and>
         (\<forall>q. (\<forall>i<r. q \<noteq> g i) \<longrightarrow> fold (\<lambda>i J'. J'[g i := h i (J' ! g i)]) [0..<r] J ! q = J ! q)"
  using assms
proof (induction r)
  case 0
  then show ?case by simp
next
  case (Suc r)
  let ?F = "fold (\<lambda>i J'. J'[g i := h i (J' ! g i)]) [0..<r] J"
  from Suc.prems have inj: "inj_on g {..<r}" and rng: "\<forall>i<r. g i < length J"
    by (auto simp: inj_on_def)
  from Suc.IH[OF inj rng] have
    len: "length ?F = length J" and
    hit: "\<forall>i<r. ?F ! g i = h i (J ! g i)" and
    miss: "\<forall>q. (\<forall>i<r. q \<noteq> g i) \<longrightarrow> ?F ! q = J ! q" by auto
  have new: "\<forall>i<r. g r \<noteq> g i"
  proof (intro allI impI)
    fix i assume "i < r"
    then have "i \<in> {..<Suc r}" "r \<in> {..<Suc r}" "r \<noteq> i" by simp_all
    with Suc.prems(1) show "g r \<noteq> g i" by (meson inj_onD)
  qed
  have gr: "g r < length J" using Suc.prems(2) by simp
  have step: "fold (\<lambda>i J'. J'[g i := h i (J' ! g i)]) [0..<Suc r] J = ?F[g r := h r (?F ! g r)]"
    by simp
  have "?F ! g r = J ! g r" using miss new by simp
  then have step': "fold (\<lambda>i J'. J'[g i := h i (J' ! g i)]) [0..<Suc r] J = ?F[g r := h r (J ! g r)]"
    using step by simp
  show ?case
  proof (intro conjI allI impI)
    show "length (fold (\<lambda>i J'. J'[g i := h i (J' ! g i)]) [0..<Suc r] J) = length J"
      using step' len by simp
  next
    fix i assume "i < Suc r"
    show "fold (\<lambda>i J'. J'[g i := h i (J' ! g i)]) [0..<Suc r] J ! g i = h i (J ! g i)"
    proof (cases "i = r")
      case True
      then show ?thesis using step' len gr by simp
    next
      case False
      with \<open>i < Suc r\<close> have ir: "i < r" by simp
      with new have "g r \<noteq> g i" by simp
      then show ?thesis using step' hit ir by simp
    qed
  next
    fix q assume q: "\<forall>i<Suc r. q \<noteq> g i"
    then have "q \<noteq> g r" "\<forall>i<r. q \<noteq> g i" by simp_all
    then show "fold (\<lambda>i J'. J'[g i := h i (J' ! g i)]) [0..<Suc r] J ! q = J ! q"
      using step' miss by simp
  qed
qed

lemma col_update_facts:
  assumes "j < cols" "rows * cols \<le> length J"
  shows "length (col_update ord rows cols j h J) = length J"
    and "i < rows \<Longrightarrow> col_update ord rows cols j h J ! coeff_index ord rows cols i j =
           h i (J ! coeff_index ord rows cols i j)"
    and "(\<forall>i<rows. q \<noteq> coeff_index ord rows cols i j) \<Longrightarrow>
           col_update ord rows cols j h J ! q = J ! q"
proof -
  let ?g = "\<lambda>i. coeff_index ord rows cols i j"
  have inj: "inj_on ?g {..<rows}"
    using coeff_index_inj[of _ rows _ j cols j ord] assms(1) by (auto simp: inj_on_def)
  have rng: "\<forall>i<rows. ?g i < length J"
    using coeff_index_less[of _ rows j cols ord] assms by (meson less_le_trans)
  note f = fold_update[of ?g rows J h, OF inj rng, folded col_update_def]
  from f show "length (col_update ord rows cols j h J) = length J" by simp
  from f show "i < rows \<Longrightarrow> col_update ord rows cols j h J ! coeff_index ord rows cols i j =
           h i (J ! coeff_index ord rows cols i j)" by simp
  from f show "(\<forall>i<rows. q \<noteq> coeff_index ord rows cols i j) \<Longrightarrow>
           col_update ord rows cols j h J ! q = J ! q" by simp
qed

lemma column_composed:
  fixes u v :: "real list" and c :: real and ord :: StorageOrder
  assumes "j < cols" "rows * cols \<le> length J"
  defines "J3 \<equiv> col_scale ord rows cols j c (col_sub ord rows cols j v (col_assign ord rows cols j u J))"
  shows "length J3 = length J"
    and "i < rows \<Longrightarrow> J3 ! coeff_index ord rows cols i j = (u ! i - v ! i) * c"
    and "(\<forall>i<rows. q \<noteq> coeff_index ord rows cols i j) \<Longrightarrow> J3 ! q = J ! q"
proof -
  let ?J1 = "col_assign ord rows cols j u J"
  let ?J2 = "col_sub ord rows cols j v ?J1"
  have l1: "rows * cols \<le> length ?J1"
    using assms(1,2) by (simp add: col_assign_def col_update_facts(1))
  have l2: "rows * cols \<le> length ?J2"
    using assms(1) l1 by (simp add: col_sub_def col_update_facts(1))
  show "length J3 = length J"
    using assms(1,2) l1 l2 by (simp add: J3_def col_scale_def col_sub_def col_assign_def col_update_facts(1))
  show "J3 ! coeff_index ord rows cols i j = (u ! i - v ! i) * c" if "i < rows"
  proof -
    have "J3 ! coeff_index ord rows cols i j = ?J2 ! coeff_index ord rows cols i j * c"
      unfolding J3_def col_scale_def using col_update_facts(2)[OF assms(1) l2 that] by simp
    also have "?J2 ! coeff_index ord rows cols i j = ?J1 ! coeff_index ord rows cols i j - v ! i"
      unfolding col_sub_def using col_update_facts(2)[OF assms(1) l1 that] by simp
    also have "?J1 ! coeff_index ord rows cols i j = u ! i"
      unfolding col_assign_def using col_update_facts(2)[OF assms(1,2) that] by simp
    finally show ?thesis .
  qed
  show "J3 ! q = J ! q" if "\<forall>i<rows. q \<noteq> coeff_index ord rows cols i j"
  proof -
    have "J3 ! q = ?J2 ! q"
      unfolding J3_def col_scale_def using col_update_facts(3)[OF assms(1) l2 that] by simp
    also have "\<dots> = ?J1 ! q"
      unfolding col_sub_def using col_update_facts(3)[OF assms(1) l1 that] by simp
    also have "\<dots> = J ! q"
      unfolding col_assign_def using col_update_facts(3)[OF assms(1,2) that] by simp
    finally show ?thesis .
  qed
qed

lemma column_step_forward:
  assumes "column_step T f r0 rows k cols x s j M = (True, M')" "kMethod T \<noteq> CENTRAL"
  shows "\<exists>rp. f (x_plus_delta_assign k j (x ! j + delta_of s j) (parameters M)) = Some rp \<and>
     jacobian M' = col_scale (JacobianMatrix_order (kParameterBlockSize T)) rows cols j
        (1 / delta_of s j)
        (col_sub (JacobianMatrix_order (kParameterBlockSize T)) rows cols j r0
          (col_assign (JacobianMatrix_order (kParameterBlockSize T)) rows cols j rp (jacobian M)))"
  using assms
  by (auto simp: column_step_def Let_def EvaluateImpl_def split: option.splits)

lemma column_step_central_jacobian:
  assumes "column_step T f r0 rows k cols x s j M = (True, M')" "kMethod T = CENTRAL"
  shows "\<exists>rp rm. f (x_plus_delta_assign k j (x ! j + delta_of s j) (parameters M)) = Some rp \<and>
     f (x_plus_delta_assign k j (x ! j - delta_of s j) (parameters M)) = Some rm \<and>
     jacobian M' = col_scale (JacobianMatrix_order (kParameterBlockSize T)) rows cols j
        (1 / delta_of s j / 2)
        (col_sub (JacobianMatrix_order (kParameterBlockSize T)) rows cols j rm
          (col_assign (JacobianMatrix_order (kParameterBlockSize T)) rows cols j rp (jacobian M)))"
  using assms
  by (auto simp: column_step_def Let_def EvaluateImpl_def assign_overwrite split: option.splits)

lemma column_step_jacobian:
  assumes st: "column_step T f r0 rows k cols x s j M = (True, M')"
    and j: "j < cols" and len: "rows * cols \<le> length (jacobian M)"
    and xj: "x ! j = parameters M ! k ! j"
  shows "length (jacobian M') = length (jacobian M)"
    and "(\<forall>i<rows. q \<noteq> coeff_index (JacobianMatrix_order (kParameterBlockSize T)) rows cols i j)
          \<Longrightarrow> jacobian M' ! q = jacobian M ! q"
    and "i < rows \<Longrightarrow> quotient_ok T f r0 (parameters M) k j (delta_of s j) i
          (jacobian M' ! coeff_index (JacobianMatrix_order (kParameterBlockSize T)) rows cols i j)"
proof -
  let ?ord = "JacobianMatrix_order (kParameterBlockSize T)"
  have pp: "x_plus_delta_assign k j (x ! j + d) (parameters M) = perturbed (parameters M) k j d" for d
    by (simp add: x_plus_delta_assign_def perturbed_def xj)
  have pm: "x_plus_delta_assign k j (x ! j - d) (parameters M) = perturbed (parameters M) k j (- d)" for d
    by (simp add: x_plus_delta_assign_def perturbed_def xj)
  show "length (jacobian M') = length (jacobian M)"
  proof (cases "kMethod T = CENTRAL")
    case True
    from column_step_central_jacobian[OF st True] show ?thesis
      using column_composed(1)[OF j len] by auto
  next
    case False
    from column_step_forward[OF st False] show ?thesis
      using column_composed(1)[OF j len] by auto
  qed
  show "jacobian M' ! q = jacobian M ! q"
    if "\<forall>i<rows. q \<noteq> coeff_index ?ord rows cols i j"
  proof (cases "kMethod T = CENTRAL")
    case True
    from column_step_central_jacobian[OF st True] show ?thesis
      using column_composed(3)[OF j len that] by auto
  next
    case False
    from column_step_forward[OF st False] show ?thesis
      using column_composed(3)[OF j len that] by auto
  qed
  show "quotient_ok T f r0 (parameters M) k j (delta_of s j) i
          (jacobian M' ! coeff_index ?ord rows cols i j)" if "i < rows"
  proof (cases "kMethod T = CENTRAL")
    case True
    from column_step_central_jacobian[OF st True] obtain rp rm where
      "f (perturbed (parameters M) k j (delta_of s j)) = Some rp"
      "f (perturbed (parameters M) k j (- delta_of s j)) = Some rm"
      "jacobian M' = col_scale ?ord rows cols j (1 / delta_of s j / 2)
        (col_sub ?ord rows cols j rm (col_assign ?ord rows cols j rp (jacobian M)))"
      unfolding pp pm by blast
    then show ?thesis
      using column_composed(2)[OF j len that, of ?ord "1 / delta_of s j / 2" rm rp] True
      by (simp add: quotient_ok_def)
  next
    case False
    from column_step_forward[OF st False] obtain rp where
      "f (perturbed (parameters M) k j (delta_of s j)) = Some rp"
      "jacobian M' = col_scale ?ord rows cols j (1 / delta_of s j)
        (col_sub ?ord rows cols j r0 (col_assign ?ord rows cols j rp (jacobian M)))"
      unfolding pp by blast
    then show ?thesis
      using column_composed(2)[OF j len that, of ?ord "1 / delta_of s j" r0 rp] False
      by (simp add: quotient_ok_def)
  qed
qed

lemma column_loop_jacobian:
  "column_loop T f r0 rows k n x s j0 M = (True, M') \<Longrightarrow> 0 \<le> j0 \<Longrightarrow>
   x = take (nat n) (parameters M ! k) \<Longrightarrow> rows * nat n \<le> length (jacobian M) \<Longrightarrow>
   length (jacobian M') = length (jacobian M) \<and>
   (\<forall>j i. nat j0 \<le> j \<and> j < nat n \<and> i < rows \<longrightarrow>
      quotient_ok T f r0 (parameters M) k j (delta_of s j) i
        (jacobian M' ! coeff_index (JacobianMatrix_order (kParameterBlockSize T)) rows (nat n) i j)) \<and>
   (\<forall>q. (\<forall>j i. nat j0 \<le> j \<and> j < nat n \<and> i < rows \<longrightarrow>
            q \<noteq> coeff_index (JacobianMatrix_order (kParameterBlockSize T)) rows (nat n) i j) \<longrightarrow>
        jacobian M' ! q = jacobian M ! q)"
proof (induction T f r0 rows k n x s j0 M rule: column_loop.induct)
  case (1 T f r0 rows k n x s j0 M)
  let ?ci = "coeff_index (JacobianMatrix_order (kParameterBlockSize T)) rows (nat n)"
  show ?case
  proof (cases "j0 < n")
    case False
    then have "nat n \<le> nat j0" by simp
    then have "\<not> (nat j0 \<le> j \<and> j < nat n)" for j by simp
    moreover from False "1.prems"(1) have "M' = M" by (simp add: column_loop.simps)
    ultimately show ?thesis by auto
  next
    case True
    obtain b M1 where st: "column_step T f r0 rows k (nat n) x s (nat j0) M = (b, M1)"
      by (cases "column_step T f r0 rows k (nat n) x s (nat j0) M")
    with True "1.prems"(1) have b: "b"
      and rest: "column_loop T f r0 rows k n x s (j0 + 1) M1 = (True, M')"
      by (auto simp: column_loop.simps[of T f r0 rows k n x s j0 M] split: bool.splits)
    from st b have st': "column_step T f r0 rows k (nat n) x s (nat j0) M = (True, M1)" by simp
    from True "1.prems" have xj: "x ! nat j0 = parameters M ! k ! nat j0" by simp
    have p: "parameters M1 = parameters M"
      using column_step_parameters[OF st' xj] .
    from True "1.prems"(2) have jn: "nat j0 < nat n" by simp
    note cs = column_step_jacobian[OF st' jn "1.prems"(4) xj]
    have suc: "nat (j0 + 1) = Suc (nat j0)" using "1.prems"(2) by simp
    have ih: "length (jacobian M') = length (jacobian M1) \<and>
      (\<forall>j i. Suc (nat j0) \<le> j \<and> j < nat n \<and> i < rows \<longrightarrow>
         quotient_ok T f r0 (parameters M) k j (delta_of s j) i (jacobian M' ! ?ci i j)) \<and>
      (\<forall>q. (\<forall>j i. Suc (nat j0) \<le> j \<and> j < nat n \<and> i < rows \<longrightarrow> q \<noteq> ?ci i j) \<longrightarrow>
           jacobian M' ! q = jacobian M1 ! q)"
      using "1.IH"[OF True st[symmetric] _ rest] b p "1.prems" cs(1) suc by simp
    show ?thesis
    proof (intro conjI allI impI)
      show "length (jacobian M') = length (jacobian M)" using ih cs(1) by simp
    next
      fix j i assume a: "nat j0 \<le> j \<and> j < nat n \<and> i < rows"
      show "quotient_ok T f r0 (parameters M) k j (delta_of s j) i (jacobian M' ! ?ci i j)"
      proof (cases "j = nat j0")
        case False
        with a ih show ?thesis by simp
      next
        case j: True
        have "\<forall>j' i'. Suc (nat j0) \<le> j' \<and> j' < nat n \<and> i' < rows \<longrightarrow> ?ci i j \<noteq> ?ci i' j'"
          using coeff_index_inj[of i rows _ j "nat n"] a j by fastforce
        with ih have "jacobian M' ! ?ci i j = jacobian M1 ! ?ci i j" by blast
        with cs(3)[of i] a j show ?thesis by simp
      qed
    next
      fix q assume q: "\<forall>j i. nat j0 \<le> j \<and> j < nat n \<and> i < rows \<longrightarrow> q \<noteq> ?ci i j"
      then have "\<forall>j i. Suc (nat j0) \<le> j \<and> j < nat n \<and> i < rows \<longrightarrow> q \<noteq> ?ci i j" by simp
      with ih have "jacobian M' ! q = jacobian M1 ! q" by blast
      moreover have "\<forall>i<rows. q \<noteq> ?ci i (nat j0)" using q jn by simp
      ultimately show "jacobian M' ! q = jacobian M ! q" using cs(2) by simp
    qed
  qed
qed

section \<open>The columns in double arithmetic\<close>

lemma binade_eq:
  assumes "2 powi e \<le> \<bar>x\<bar>" "\<bar>x\<bar> < 2 powi (e + 1)"
  shows "binade x = e"
proof -
  have "0 < (2::real) powi e" by simp
  with assms(1) have pos: "0 < \<bar>x\<bar>" by linarith
  have "real_of_int e \<le> log 2 \<bar>x\<bar>"
    using assms(1) pos by (simp add: le_log_iff powr_real_of_int')
  moreover have p: "(2::real) powi (e + 1) = 2 powr (real_of_int e + 1)"
    using powr_real_of_int'[of 2 "e + 1"] by simp
  have "log 2 \<bar>x\<bar> < real_of_int e + 1"
    using assms(2) pos unfolding p by (simp add: log_less_iff)
  ultimately show ?thesis unfolding binade_def by linarith
qed

lemma fl_in_binade:
  assumes "2 powi e \<le> \<bar>x\<bar>" "\<bar>x\<bar> < 2 powi (e + 1)" "- 1022 \<le> e"
  shows "fl x =
     (let y = of_int (round_to_even (x / 2 powi (e - 52))) * 2 powi (e - 52)
      in if 2 ^ 1024 \<le> \<bar>y\<bar> then (if 0 < x then PInf else NInf) else Finite y)"
proof -
  have "0 < (2::real) powi e" by simp
  with assms(1) have "0 < \<bar>x\<bar>" by linarith
  then have "x \<noteq> 0" by simp
  moreover have "quantum x = 2 powi (e - 52)"
    using binade_eq[OF assms(1,2)] assms(3) by (simp add: quantum_def)
  ultimately show ?thesis by (simp add: fl_def)
qed

lemma fl_third: "fl (1 / 3) = Finite (6004799503160661 / 18014398509481984)"
  by (subst fl_in_binade[where e = "- 2"]) (simp_all add: round_to_even_def Let_def)

lemma fl_3: "fl 3 = Finite 3"
  by (subst fl_in_binade[where e = 1]) (simp_all add: round_to_even_def Let_def)

lemma fl_5: "fl 5 = Finite 5"
  by (subst fl_in_binade[where e = 2]) (simp_all add: round_to_even_def Let_def)

lemma fl_6: "fl 6 = Finite 6"
  by (subst fl_in_binade[where e = 2]) (simp_all add: round_to_even_def Let_def)

lemma fl_10: "fl 10 = Finite 10"
  by (subst fl_in_binade[where e = 3]) (simp_all add: round_to_even_def Let_def)

lemma fl_15: "fl 15 = Finite 15"
  by (subst fl_in_binade[where e = 3]) (simp_all add: round_to_even_def Let_def)

lemma fl_30: "fl 30 = Finite 30"
  by (subst fl_in_binade[where e = 4]) (simp_all add: round_to_even_def Let_def)

lemma fl_product: "fl (30023997515803305 / 18014398509481984) =
    Finite (3752999689475413 / 2251799813685248)"
  by (subst fl_in_binade[where e = 0]) (simp_all add: round_to_even_def Let_def)

lemma fl_quotient: "fl (5 / 3) = Finite (7505999378950827 / 4503599627370496)"
  by (subst fl_in_binade[where e = 0]) (simp_all add: round_to_even_def Let_def)

lemma min_step_size_d_eq: "min_step_size_d = Finite (1 / 67108864)"
  unfolding min_step_size_d_def sqrt_epsilon
  by (subst fl_in_binade[where e = "- 26"]) (simp_all add: round_to_even_def Let_def)

lemmas run_d_simps =
  EvaluateJacobianForParameterBlock_d_def column_loop_d.simps column_step_d_def
  num_residuals_internal_def parameter_block_index_internal_def
  parameter_block_size_internal_def step_size_of_d_def delta_of_d_def std_max_d_def
  min_step_size_d_eq DYNAMIC_def x_plus_delta_assign_def JacobianMatrix_order_def
  coeff_index_def col_update_def EvaluateImpl_d_def col_assign_d_def col_sub_d_def col_scale_d_def Let_def upt_rec
  dadd_def dsub_def dmul_def ddiv_def ex_slope_def ex_one_by_one_def ex_memory_d_def
  fl_3 fl_5 fl_6 fl_10 fl_15 fl_30 fl_third fl_product fl_quotient

lemma ex_slope_run:
  "EvaluateJacobianForParameterBlock_d ex_one_by_one ex_slope [Finite 5] (Finite 1) 1 0 1 ex_memory_d =
     Inr (True, \<lparr>parameters_d = [[Finite 3]],
       jacobian_d = [Finite (7505999378950826 / 4503599627370496)]\<rparr>)"
  by (simp add: run_d_simps)

lemma delta_of_step_size_d:
  "j < length x \<Longrightarrow>
   delta_of_d (step_size_of_d x relative_step_size) j =
     std_max_d min_step_size_d (dmul (dabs (x ! j)) relative_step_size)"
  by (simp add: delta_of_d_def step_size_of_d_def)

lemma column_composed_d:
  fixes u v :: "double list" and c :: double and ord :: StorageOrder
  assumes "j < cols" "rows * cols \<le> length J"
  defines "J3 \<equiv> col_scale_d ord rows cols j c
     (col_sub_d ord rows cols j v (col_assign_d ord rows cols j u J))"
  shows "length J3 = length J"
    and "i < rows \<Longrightarrow> J3 ! coeff_index ord rows cols i j = dmul (dsub (u ! i) (v ! i)) c"
    and "(\<forall>i<rows. q \<noteq> coeff_index ord rows cols i j) \<Longrightarrow> J3 ! q = J ! q"
proof -
  let ?J1 = "col_assign_d ord rows cols j u J"
  let ?J2 = "col_sub_d ord rows cols j v ?J1"
  have l1: "rows * cols \<le> length ?J1"
    using assms(1,2) by (simp add: col_assign_d_def col_update_facts(1))
  have l2: "rows * cols \<le> length ?J2"
    using assms(1) l1 by (simp add: col_sub_d_def col_update_facts(1))
  show "length J3 = length J"
    using assms(1,2) l1 l2
    by (simp add: J3_def col_scale_d_def col_sub_d_def col_assign_d_def col_update_facts(1))
  show "J3 ! coeff_index ord rows cols i j = dmul (dsub (u ! i) (v ! i)) c" if "i < rows"
  proof -
    have "J3 ! coeff_index ord rows cols i j = dmul (?J2 ! coeff_index ord rows cols i j) c"
      unfolding J3_def col_scale_d_def using col_update_facts(2)[OF assms(1) l2 that] by simp
    also have "?J2 ! coeff_index ord rows cols i j =
        dsub (?J1 ! coeff_index ord rows cols i j) (v ! i)"
      unfolding col_sub_d_def using col_update_facts(2)[OF assms(1) l1 that] by simp
    also have "?J1 ! coeff_index ord rows cols i j = u ! i"
      unfolding col_assign_d_def using col_update_facts(2)[OF assms(1,2) that] by simp
    finally show ?thesis .
  qed
  show "J3 ! q = J ! q" if "\<forall>i<rows. q \<noteq> coeff_index ord rows cols i j"
  proof -
    have "J3 ! q = ?J2 ! q"
      unfolding J3_def col_scale_d_def using col_update_facts(3)[OF assms(1) l2 that] by simp
    also have "\<dots> = ?J1 ! q"
      unfolding col_sub_d_def using col_update_facts(3)[OF assms(1) l1 that] by simp
    also have "\<dots> = J ! q"
      unfolding col_assign_d_def using col_update_facts(3)[OF assms(1,2) that] by simp
    finally show ?thesis .
  qed
qed

lemma column_step_parameters_d:
  assumes "column_step_d T f r0 rows k cols x s j M = (True, M')"
    and "x ! j = parameters_d M ! k ! j"
  shows "parameters_d M' = parameters_d M"
  using assms
  by (auto simp: column_step_d_def Let_def EvaluateImpl_d_def assign_overwrite assign_same
      split: option.splits if_splits)

lemma column_step_forward_d:
  assumes "column_step_d T f r0 rows k cols x s j M = (True, M')" "kMethod T \<noteq> CENTRAL"
  shows "\<exists>rp. f (x_plus_delta_assign k j (dadd (x ! j) (delta_of_d s j)) (parameters_d M)) = Some rp \<and>
     jacobian_d M' = col_scale_d (JacobianMatrix_order (kParameterBlockSize T)) rows cols j
        (ddiv (Finite 1) (delta_of_d s j))
        (col_sub_d (JacobianMatrix_order (kParameterBlockSize T)) rows cols j r0
          (col_assign_d (JacobianMatrix_order (kParameterBlockSize T)) rows cols j rp
            (jacobian_d M)))"
  using assms
  by (auto simp: column_step_d_def Let_def EvaluateImpl_d_def split: option.splits)

lemma column_step_central_d:
  assumes "column_step_d T f r0 rows k cols x s j M = (True, M')" "kMethod T = CENTRAL"
  shows "\<exists>rp rm.
     f (x_plus_delta_assign k j (dadd (x ! j) (delta_of_d s j)) (parameters_d M)) = Some rp \<and>
     f (x_plus_delta_assign k j (dsub (x ! j) (delta_of_d s j)) (parameters_d M)) = Some rm \<and>
     jacobian_d M' = col_scale_d (JacobianMatrix_order (kParameterBlockSize T)) rows cols j
        (ddiv (ddiv (Finite 1) (delta_of_d s j)) (Finite 2))
        (col_sub_d (JacobianMatrix_order (kParameterBlockSize T)) rows cols j rm
          (col_assign_d (JacobianMatrix_order (kParameterBlockSize T)) rows cols j rp
            (jacobian_d M)))"
  using assms
  by (auto simp: column_step_d_def Let_def EvaluateImpl_d_def assign_overwrite split: option.splits)

lemma column_step_jacobian_d:
  assumes st: "column_step_d T f r0 rows k cols x s j M = (True, M')"
    and j: "j < cols" and len: "rows * cols \<le> length (jacobian_d M)"
    and xj: "x ! j = parameters_d M ! k ! j"
  shows "length (jacobian_d M') = length (jacobian_d M)"
    and "(\<forall>i<rows. q \<noteq> coeff_index (JacobianMatrix_order (kParameterBlockSize T)) rows cols i j)
          \<Longrightarrow> jacobian_d M' ! q = jacobian_d M ! q"
    and "i < rows \<Longrightarrow> scaled_difference_ok T f r0 (parameters_d M) k j (delta_of_d s j) i
          (jacobian_d M' ! coeff_index (JacobianMatrix_order (kParameterBlockSize T)) rows cols i j)"
proof -
  let ?ord = "JacobianMatrix_order (kParameterBlockSize T)"
  let ?ps = "parameters_d M"
  have pp: "x_plus_delta_assign k j (dadd (x ! j) d) ?ps =
      ?ps[k := (?ps ! k)[j := dadd (?ps ! k ! j) d]]" for d
    by (simp add: x_plus_delta_assign_def xj)
  have pm: "x_plus_delta_assign k j (dsub (x ! j) d) ?ps =
      ?ps[k := (?ps ! k)[j := dsub (?ps ! k ! j) d]]" for d
    by (simp add: x_plus_delta_assign_def xj)
  show "length (jacobian_d M') = length (jacobian_d M)"
  proof (cases "kMethod T = CENTRAL")
    case True
    from column_step_central_d[OF st True] show ?thesis
      using column_composed_d(1)[OF j len] by auto
  next
    case False
    from column_step_forward_d[OF st False] show ?thesis
      using column_composed_d(1)[OF j len] by auto
  qed
  show "jacobian_d M' ! q = jacobian_d M ! q"
    if "\<forall>i<rows. q \<noteq> coeff_index ?ord rows cols i j"
  proof (cases "kMethod T = CENTRAL")
    case True
    from column_step_central_d[OF st True] show ?thesis
      using column_composed_d(3)[OF j len that] by auto
  next
    case False
    from column_step_forward_d[OF st False] show ?thesis
      using column_composed_d(3)[OF j len that] by auto
  qed
  show "scaled_difference_ok T f r0 ?ps k j (delta_of_d s j) i
          (jacobian_d M' ! coeff_index ?ord rows cols i j)" if "i < rows"
  proof (cases "kMethod T = CENTRAL")
    case True
    from column_step_central_d[OF st True] obtain rp rm where
      "f (?ps[k := (?ps ! k)[j := dadd (?ps ! k ! j) (delta_of_d s j)]]) = Some rp"
      "f (?ps[k := (?ps ! k)[j := dsub (?ps ! k ! j) (delta_of_d s j)]]) = Some rm"
      "jacobian_d M' = col_scale_d ?ord rows cols j (ddiv (ddiv (Finite 1) (delta_of_d s j)) (Finite 2))
        (col_sub_d ?ord rows cols j rm (col_assign_d ?ord rows cols j rp (jacobian_d M)))"
      unfolding pp pm by blast
    then show ?thesis
      using column_composed_d(2)[OF j len that, of ?ord
          "ddiv (ddiv (Finite 1) (delta_of_d s j)) (Finite 2)" rm rp] True
      by (simp add: scaled_difference_ok_def)
  next
    case False
    from column_step_forward_d[OF st False] obtain rp where
      "f (?ps[k := (?ps ! k)[j := dadd (?ps ! k ! j) (delta_of_d s j)]]) = Some rp"
      "jacobian_d M' = col_scale_d ?ord rows cols j (ddiv (Finite 1) (delta_of_d s j))
        (col_sub_d ?ord rows cols j r0 (col_assign_d ?ord rows cols j rp (jacobian_d M)))"
      unfolding pp by blast
    then show ?thesis
      using column_composed_d(2)[OF j len that, of ?ord "ddiv (Finite 1) (delta_of_d s j)" r0 rp]
        False
      by (simp add: scaled_difference_ok_def)
  qed
qed

lemma column_loop_jacobian_d:
  "column_loop_d T f r0 rows k n x s j0 M = (True, M') \<Longrightarrow> 0 \<le> j0 \<Longrightarrow>
   x = take (nat n) (parameters_d M ! k) \<Longrightarrow> rows * nat n \<le> length (jacobian_d M) \<Longrightarrow>
   length (jacobian_d M') = length (jacobian_d M) \<and>
   (\<forall>j i. nat j0 \<le> j \<and> j < nat n \<and> i < rows \<longrightarrow>
      scaled_difference_ok T f r0 (parameters_d M) k j (delta_of_d s j) i
        (jacobian_d M' ! coeff_index (JacobianMatrix_order (kParameterBlockSize T)) rows (nat n) i j)) \<and>
   (\<forall>q. (\<forall>j i. nat j0 \<le> j \<and> j < nat n \<and> i < rows \<longrightarrow>
            q \<noteq> coeff_index (JacobianMatrix_order (kParameterBlockSize T)) rows (nat n) i j) \<longrightarrow>
        jacobian_d M' ! q = jacobian_d M ! q)"
proof (induction T f r0 rows k n x s j0 M rule: column_loop_d.induct)
  case (1 T f r0 rows k n x s j0 M)
  let ?ci = "coeff_index (JacobianMatrix_order (kParameterBlockSize T)) rows (nat n)"
  show ?case
  proof (cases "j0 < n")
    case False
    then have "nat n \<le> nat j0" by simp
    then have "\<not> (nat j0 \<le> j \<and> j < nat n)" for j by simp
    moreover from False "1.prems"(1) have "M' = M" by (simp add: column_loop_d.simps)
    ultimately show ?thesis by auto
  next
    case True
    obtain b M1 where st: "column_step_d T f r0 rows k (nat n) x s (nat j0) M = (b, M1)"
      by (cases "column_step_d T f r0 rows k (nat n) x s (nat j0) M")
    with True "1.prems"(1) have b: "b"
      and rest: "column_loop_d T f r0 rows k n x s (j0 + 1) M1 = (True, M')"
      by (auto simp: column_loop_d.simps[of T f r0 rows k n x s j0 M] split: bool.splits)
    from st b have st': "column_step_d T f r0 rows k (nat n) x s (nat j0) M = (True, M1)" by simp
    from True "1.prems" have xj: "x ! nat j0 = parameters_d M ! k ! nat j0" by simp
    have p: "parameters_d M1 = parameters_d M"
      using column_step_parameters_d[OF st' xj] .
    from True "1.prems"(2) have jn: "nat j0 < nat n" by simp
    note cs = column_step_jacobian_d[OF st' jn "1.prems"(4) xj]
    have suc: "nat (j0 + 1) = Suc (nat j0)" using "1.prems"(2) by simp
    have ih: "length (jacobian_d M') = length (jacobian_d M1) \<and>
      (\<forall>j i. Suc (nat j0) \<le> j \<and> j < nat n \<and> i < rows \<longrightarrow>
         scaled_difference_ok T f r0 (parameters_d M) k j (delta_of_d s j) i
           (jacobian_d M' ! ?ci i j)) \<and>
      (\<forall>q. (\<forall>j i. Suc (nat j0) \<le> j \<and> j < nat n \<and> i < rows \<longrightarrow> q \<noteq> ?ci i j) \<longrightarrow>
           jacobian_d M' ! q = jacobian_d M1 ! q)"
      using "1.IH"[OF True st[symmetric] _ rest] b p "1.prems" cs(1) suc by simp
    show ?thesis
    proof (intro conjI allI impI)
      show "length (jacobian_d M') = length (jacobian_d M)" using ih cs(1) by simp
    next
      fix j i assume a: "nat j0 \<le> j \<and> j < nat n \<and> i < rows"
      show "scaled_difference_ok T f r0 (parameters_d M) k j (delta_of_d s j) i
          (jacobian_d M' ! ?ci i j)"
      proof (cases "j = nat j0")
        case False
        with a ih show ?thesis by simp
      next
        case j: True
        have "\<forall>j' i'. Suc (nat j0) \<le> j' \<and> j' < nat n \<and> i' < rows \<longrightarrow> ?ci i j \<noteq> ?ci i' j'"
          using coeff_index_inj[of i rows _ j "nat n"] a j by fastforce
        with ih have "jacobian_d M' ! ?ci i j = jacobian_d M1 ! ?ci i j" by blast
        with cs(3)[of i] a j show ?thesis by simp
      qed
    next
      fix q assume q: "\<forall>j i. nat j0 \<le> j \<and> j < nat n \<and> i < rows \<longrightarrow> q \<noteq> ?ci i j"
      then have "\<forall>j i. Suc (nat j0) \<le> j \<and> j < nat n \<and> i < rows \<longrightarrow> q \<noteq> ?ci i j" by simp
      with ih have "jacobian_d M' ! q = jacobian_d M1 ! q" by blast
      moreover have "\<forall>i<rows. q \<noteq> ?ci i (nat j0)" using q jn by simp
      ultimately show "jacobian_d M' ! q = jacobian_d M ! q" using cs(2) by simp
    qed
  qed
qed

text \<open>
  Claim C1, as amended.  Take a call that returns \<^verbatim>\<open>true\<close>, on a block that holds the
  \<open>n\<close> coordinates and a jacobian buffer that holds the \<open>m * n\<close> coefficients.  For every
  coordinate \<open>j < n\<close> and residual \<open>i < m\<close>, with \<open>delta\<close> the larger of
  \<open>sqrt epsilon\<close> and the rounded \<open>\<bar>x\<^sub>j\<bar> * relative_step_size\<close>, the functor succeeds at
  the parameters whose coordinate \<open>j\<close> is the rounded \<open>x\<^sub>j + delta\<close>, with residuals \<open>rp\<close>,
  and coefficient \<open>(i, j)\<close> of the jacobian is the rounded product of the rounded
  difference \<open>rp\<^sub>i - residuals_at_eval_point\<^sub>i\<close> and the rounded \<open>1 / delta\<close> for
  FORWARD; for CENTRAL the functor also succeeds at the rounded \<open>x\<^sub>j - delta\<close> with
  residuals \<open>rm\<close>, and the coefficient is the rounded product of the rounded difference
  \<open>rp\<^sub>i - rm\<^sub>i\<close> and half the rounded \<open>1 / delta\<close>.
\<close>

theorem column_is_rounded_scaled_difference:
  assumes run: "EvaluateJacobianForParameterBlock_d T functor residuals_at_eval_point
      relative_step_size num_residuals parameter_block_index parameter_block_size M = Inr (True, M')"
    and block: "nat (parameter_block_size_internal T parameter_block_size) \<le>
      length (parameters_d M ! nat (parameter_block_index_internal T parameter_block_index))"
    and buffer: "nat (num_residuals_internal T num_residuals) *
      nat (parameter_block_size_internal T parameter_block_size) \<le> length (jacobian_d M)"
    and j: "j < nat (parameter_block_size_internal T parameter_block_size)"
    and i: "i < nat (num_residuals_internal T num_residuals)"
  shows "\<exists>rp. functor ((parameters_d M)
            [nat (parameter_block_index_internal T parameter_block_index) :=
               (parameters_d M ! nat (parameter_block_index_internal T parameter_block_index))
                 [j := dadd
                    (parameters_d M ! nat (parameter_block_index_internal T parameter_block_index) ! j)
                    (std_max_d min_step_size_d
                       (dmul (dabs (parameters_d M !
                          nat (parameter_block_index_internal T parameter_block_index) ! j))
                          relative_step_size))]]) = Some rp \<and>
     (case kMethod T of
        FORWARD \<Rightarrow>
          jacobian_d M' ! coeff_index (JacobianMatrix_order (kParameterBlockSize T))
              (nat (num_residuals_internal T num_residuals))
              (nat (parameter_block_size_internal T parameter_block_size)) i j =
            dmul (dsub (rp ! i) (residuals_at_eval_point ! i))
              (ddiv (Finite 1)
                 (std_max_d min_step_size_d
                    (dmul (dabs (parameters_d M !
                       nat (parameter_block_index_internal T parameter_block_index) ! j))
                       relative_step_size)))
      | CENTRAL \<Rightarrow>
          (\<exists>rm. functor ((parameters_d M)
            [nat (parameter_block_index_internal T parameter_block_index) :=
               (parameters_d M ! nat (parameter_block_index_internal T parameter_block_index))
                 [j := dsub
                    (parameters_d M ! nat (parameter_block_index_internal T parameter_block_index) ! j)
                    (std_max_d min_step_size_d
                       (dmul (dabs (parameters_d M !
                          nat (parameter_block_index_internal T parameter_block_index) ! j))
                          relative_step_size))]]) = Some rm \<and>
           jacobian_d M' ! coeff_index (JacobianMatrix_order (kParameterBlockSize T))
              (nat (num_residuals_internal T num_residuals))
              (nat (parameter_block_size_internal T parameter_block_size)) i j =
            dmul (dsub (rp ! i) (rm ! i))
              (ddiv (ddiv (Finite 1)
                 (std_max_d min_step_size_d
                    (dmul (dabs (parameters_d M !
                       nat (parameter_block_index_internal T parameter_block_index) ! j))
                       relative_step_size))) (Finite 2))))"
proof -
  let ?m = "nat (num_residuals_internal T num_residuals)"
  let ?k = "nat (parameter_block_index_internal T parameter_block_index)"
  let ?n = "parameter_block_size_internal T parameter_block_size"
  let ?x = "take (nat ?n) (parameters_d M ! ?k)"
  let ?s = "step_size_of_d ?x relative_step_size"
  from run have loop:
    "column_loop_d T functor residuals_at_eval_point ?m ?k ?n ?x ?s 0 M = (True, M')"
    by (simp add: EvaluateJacobianForParameterBlock_d_def Let_def split: if_splits)
  from column_loop_jacobian_d[OF loop _ refl buffer] j i
  have q: "scaled_difference_ok T functor residuals_at_eval_point (parameters_d M) ?k j
     (delta_of_d ?s j) i
     (jacobian_d M' ! coeff_index (JacobianMatrix_order (kParameterBlockSize T)) ?m (nat ?n) i j)"
    by simp
  have "j < length ?x" using j block by simp
  then have "delta_of_d ?s j = std_max_d min_step_size_d (dmul (dabs (?x ! j)) relative_step_size)"
    by (rule delta_of_step_size_d)
  also have "?x ! j = parameters_d M ! ?k ! j" using j by simp
  finally have d: "delta_of_d ?s j =
      std_max_d min_step_size_d (dmul (dabs (parameters_d M ! ?k ! j)) relative_step_size)" .
  from q show ?thesis
    unfolding d scaled_difference_ok_def by (cases "kMethod T") auto
qed

theorem column_is_rounded_scaled_difference_witness:
  "EvaluateJacobianForParameterBlock_d ex_one_by_one ex_slope [Finite 5] (Finite 1) 1 0 1 ex_memory_d =
     Inr (True, \<lparr>parameters_d = [[Finite 3]],
       jacobian_d = [Finite (7505999378950826 / 4503599627370496)]\<rparr>) \<and>
   nat (parameter_block_size_internal ex_one_by_one 1) \<le>
     length (parameters_d ex_memory_d ! nat (parameter_block_index_internal ex_one_by_one 0)) \<and>
   nat (num_residuals_internal ex_one_by_one 1) *
     nat (parameter_block_size_internal ex_one_by_one 1) \<le> length (jacobian_d ex_memory_d) \<and>
   (0::nat) < nat (parameter_block_size_internal ex_one_by_one 1) \<and>
   (0::nat) < nat (num_residuals_internal ex_one_by_one 1) \<and>
   (\<exists>rp. ex_slope [[dadd (Finite 3) (Finite 3)]] = Some rp \<and>
      [Finite (7505999378950826 / 4503599627370496)] ! 0 =
        dmul (dsub (rp ! 0) ([Finite 5] ! 0)) (ddiv (Finite 1) (Finite 3)))"
proof -
  have block: "nat (parameter_block_size_internal ex_one_by_one 1) \<le>
     length (parameters_d ex_memory_d ! nat (parameter_block_index_internal ex_one_by_one 0))"
    by (simp add: parameter_block_size_internal_def parameter_block_index_internal_def
        ex_one_by_one_def ex_memory_d_def DYNAMIC_def)
  have buffer: "nat (num_residuals_internal ex_one_by_one 1) *
     nat (parameter_block_size_internal ex_one_by_one 1) \<le> length (jacobian_d ex_memory_d)"
    by (simp add: parameter_block_size_internal_def num_residuals_internal_def
        ex_one_by_one_def ex_memory_d_def DYNAMIC_def)
  have j: "(0::nat) < nat (parameter_block_size_internal ex_one_by_one 1)"
    by (simp add: parameter_block_size_internal_def ex_one_by_one_def DYNAMIC_def)
  have i: "(0::nat) < nat (num_residuals_internal ex_one_by_one 1)"
    by (simp add: num_residuals_internal_def ex_one_by_one_def DYNAMIC_def)
  have d: "std_max_d min_step_size_d (dmul (dabs (Finite 3)) (Finite 1)) = Finite 3"
    by (simp add: std_max_d_def min_step_size_d_eq dmul_def fl_3)
  have d': "std_max_d min_step_size_d (dmul (Finite 3) (Finite 1)) = Finite 3"
    using d by simp
  from column_is_rounded_scaled_difference[OF ex_slope_run block buffer j i]
  have "\<exists>rp. ex_slope [[dadd (Finite 3) (Finite 3)]] = Some rp \<and>
      [Finite (7505999378950826 / 4503599627370496)] ! 0 =
        dmul (dsub (rp ! 0) ([Finite 5] ! 0)) (ddiv (Finite 1) (Finite 3))"
    by (simp add: ex_one_by_one_def ex_memory_d_def parameter_block_index_internal_def
        parameter_block_size_internal_def num_residuals_internal_def DYNAMIC_def d'
        JacobianMatrix_order_def coeff_index_def)
  with ex_slope_run block buffer j i show ?thesis by blast
qed

text \<open>
  Claim C1 as it is stated fails: the coefficient is not the quotient.  For
  \<open>f(x) = 5 x / 3\<close> at \<open>x = 3\<close> with relative step size \<open>1\<close> and method FORWARD, the
  step is \<open>3\<close>, \<open>f(x + delta) = 10\<close> and \<open>f(x) = 5\<close>.  The quotient \<open>(10 - 5) / 3\<close>
  rounds to \<open>7505999378950827 / 2\<^sup>5\<^sup>2\<close>; the routine multiplies \<open>5\<close> by the rounded
  \<open>1 / 3\<close> and stores \<open>7505999378950826 / 2\<^sup>5\<^sup>2\<close>, which is neither that double nor
  the exact \<open>5 / 3\<close>.
\<close>

theorem column_is_not_the_quotient:
  "EvaluateJacobianForParameterBlock_d ex_one_by_one ex_slope [Finite 5] (Finite 1) 1 0 1 ex_memory_d =
     Inr (True, \<lparr>parameters_d = [[Finite 3]],
       jacobian_d = [Finite (7505999378950826 / 4503599627370496)]\<rparr>) \<and>
   ex_slope [[Finite 3]] = Some [Finite 5] \<and>
   std_max_d min_step_size_d (dmul (dabs (Finite 3)) (Finite 1)) = Finite 3 \<and>
   ex_slope [[dadd (Finite 3) (Finite 3)]] = Some [Finite 10] \<and>
   ddiv (dsub (Finite 10) (Finite 5)) (Finite 3) =
     Finite (7505999378950827 / 4503599627370496) \<and>
   \<not> (\<exists>rp. ex_slope [[dadd (Finite 3) (Finite 3)]] = Some rp \<and>
        [Finite (7505999378950826 / 4503599627370496)] ! 0 =
          ddiv (dsub (rp ! 0) ([Finite 5] ! 0)) (Finite 3)) \<and>
   (7505999378950826 / 4503599627370496 :: real) \<noteq> (10 - 5) / 3"
proof -
  have a: "ex_slope [[Finite 3]] = Some [Finite 5]"
    by (simp add: ex_slope_def dmul_def ddiv_def fl_15 fl_5)
  have d: "std_max_d min_step_size_d (dmul (dabs (Finite 3)) (Finite 1)) = Finite 3"
    by (simp add: std_max_d_def min_step_size_d_eq dmul_def fl_3)
  have p: "ex_slope [[dadd (Finite 3) (Finite 3)]] = Some [Finite 10]"
    by (simp add: ex_slope_def dadd_def dmul_def ddiv_def fl_6 fl_30 fl_10)
  have q: "ddiv (dsub (Finite 10) (Finite 5)) (Finite 3) =
     Finite (7505999378950827 / 4503599627370496)"
    by (simp add: dsub_def dadd_def ddiv_def fl_5 fl_quotient)
  have n: "\<not> (\<exists>rp. ex_slope [[dadd (Finite 3) (Finite 3)]] = Some rp \<and>
        [Finite (7505999378950826 / 4503599627370496)] ! 0 =
          ddiv (dsub (rp ! 0) ([Finite 5] ! 0)) (Finite 3))"
    by (simp add: p q)
  have r: "(7505999378950826 / 4503599627370496 :: real) \<noteq> (10 - 5) / 3" by simp
  from ex_slope_run a d p q n r show ?thesis by blast
qed

section \<open>The resolved sizes\<close>

lemma column_step_points:
  "column_step T f r0 rows k cols x s j M = (b, M') \<Longrightarrow>
   \<exists>new. evaluations M' = evaluations M @ new \<and>
     (\<forall>e\<in>set new. \<exists>v. fst e = x_plus_delta_assign k j v (parameters M)) \<and>
     (b \<longrightarrow> length new = (if kMethod T = CENTRAL then 2 else 1))"
  by (auto simp: column_step_def Let_def EvaluateImpl_def assign_overwrite
      split: option.splits if_splits sum.splits prod.splits)

lemma column_loop_points:
  "column_loop T f r0 rows k n x s j0 M = (b, M') \<Longrightarrow> 0 \<le> j0 \<Longrightarrow> j0 \<le> n \<Longrightarrow>
   x = take (nat n) (parameters M ! k) \<Longrightarrow>
   \<exists>new. evaluations M' = evaluations M @ new \<and>
     (\<forall>e\<in>set new. \<exists>j v. j < nat n \<and> fst e = x_plus_delta_assign k j v (parameters M)) \<and>
     (b \<longrightarrow> length new = (if kMethod T = CENTRAL then 2 else 1) * (nat n - nat j0))"
proof (induction T f r0 rows k n x s j0 M rule: column_loop.induct)
  case (1 T f r0 rows k n x s j0 M)
  let ?c = "if kMethod T = CENTRAL then 2 else 1 :: nat"
  show ?case
  proof (cases "j0 < n")
    case False
    with "1.prems" have "j0 = n" "M' = M" by (simp_all add: column_loop.simps)
    then show ?thesis by simp
  next
    case True
    obtain b1 M1 where st: "column_step T f r0 rows k (nat n) x s (nat j0) M = (b1, M1)"
      by (cases "column_step T f r0 rows k (nat n) x s (nat j0) M")
    from column_step_points[OF st] obtain new1 where n1:
      "evaluations M1 = evaluations M @ new1"
      "\<forall>e\<in>set new1. \<exists>v. fst e = x_plus_delta_assign k (nat j0) v (parameters M)"
      "b1 \<longrightarrow> length new1 = ?c" by blast
    from True "1.prems"(2) have lt: "nat j0 < nat n" by simp
    have p1: "\<forall>e\<in>set new1. \<exists>j v. j < nat n \<and> fst e = x_plus_delta_assign k j v (parameters M)"
      using n1(2) lt by blast
    show ?thesis
    proof (cases b1)
      case False
      with True st "1.prems"(1) have "b = False" "M' = M1"
        by (simp_all add: column_loop.simps[of T f r0 rows k n x s j0 M])
      with n1(1) p1 show ?thesis by (intro exI[of _ new1]) simp
    next
      case b1: True
      with True st "1.prems"(1)
      have rest: "column_loop T f r0 rows k n x s (j0 + 1) M1 = (b, M')"
        by (simp add: column_loop.simps[of T f r0 rows k n x s j0 M])
      from True "1.prems" have xj: "x ! nat j0 = parameters M ! k ! nat j0" by simp
      from st b1 have "column_step T f r0 rows k (nat n) x s (nat j0) M = (True, M1)" by simp
      from column_step_parameters[OF this xj] have p: "parameters M1 = parameters M" .
      have suc: "nat (j0 + 1) = Suc (nat j0)" using "1.prems"(2) by simp
      from "1.IH"[OF True st[symmetric] _ rest] b1 True "1.prems" p suc
      obtain new2 where n2: "evaluations M' = evaluations M1 @ new2"
        "\<forall>e\<in>set new2. \<exists>j v. j < nat n \<and> fst e = x_plus_delta_assign k j v (parameters M)"
        "b \<longrightarrow> length new2 = ?c * (nat n - Suc (nat j0))"
        by auto
      have e: "evaluations M' = evaluations M @ (new1 @ new2)" using n1(1) n2(1) by simp
      have pts: "\<forall>e\<in>set (new1 @ new2).
          \<exists>j v. j < nat n \<and> fst e = x_plus_delta_assign k j v (parameters M)"
        using p1 n2(2) by auto
      have "nat n - nat j0 = Suc (nat n - Suc (nat j0))" using lt by linarith
      then have "?c * (nat n - nat j0) = ?c + ?c * (nat n - Suc (nat j0))" by simp
      with n1(3) n2(3) b1
      have len: "b \<longrightarrow> length (new1 @ new2) = ?c * (nat n - nat j0)" by simp
      from e pts len show ?thesis by blast
    qed
  qed
qed

lemma quotient_ok_unique:
  "quotient_ok T f r0 ps k j d i v \<Longrightarrow> quotient_ok T f r0 ps k j d i v' \<Longrightarrow> v = v'"
  by (auto simp: quotient_ok_def split: if_splits)

lemma overwritten_cells_two_runs:
  assumes run: "EvaluateJacobianForParameterBlock T functor residuals_at_eval_point
      relative_step_size num_residuals parameter_block_index parameter_block_size M =
      Inr (True, M')"
    and run2: "EvaluateJacobianForParameterBlock T functor residuals_at_eval_point
      relative_step_size num_residuals parameter_block_index parameter_block_size
      (M\<lparr>jacobian := J2\<rparr>) = Inr (True, M2')"
    and buffer: "nat (if kNumResiduals T = DYNAMIC then num_residuals else kNumResiduals T) *
      nat (if kParameterBlockSize T = DYNAMIC then parameter_block_size
           else kParameterBlockSize T) \<le> length (jacobian M)"
    and same: "length J2 = length (jacobian M)"
  shows "\<exists>new. evaluations M' = evaluations M @ new \<and>
     length new = (if kMethod T = CENTRAL then 2 else 1) *
       nat (if kParameterBlockSize T = DYNAMIC then parameter_block_size
            else kParameterBlockSize T) \<and>
     (\<forall>e\<in>set new.
        \<exists>j<nat (if kParameterBlockSize T = DYNAMIC then parameter_block_size
                 else kParameterBlockSize T).
        \<exists>v. fst e =
          (parameters M)
            [nat (if kParameterBlock T = DYNAMIC then parameter_block_index
                  else kParameterBlock T) :=
               (parameters M !
                  nat (if kParameterBlock T = DYNAMIC then parameter_block_index
                       else kParameterBlock T))[j := v]]) \<and>
     (\<forall>q<length J2.
        jacobian M2' ! q =
          (if \<exists>i<nat (if kNumResiduals T = DYNAMIC then num_residuals else kNumResiduals T).
                \<exists>j<nat (if kParameterBlockSize T = DYNAMIC then parameter_block_size
                         else kParameterBlockSize T).
                  q = coeff_index (JacobianMatrix_order (kParameterBlockSize T))
                        (nat (if kNumResiduals T = DYNAMIC then num_residuals
                              else kNumResiduals T))
                        (nat (if kParameterBlockSize T = DYNAMIC then parameter_block_size
                              else kParameterBlockSize T)) i j
           then jacobian M' ! q else J2 ! q))"
proof -
  let ?m = "nat (num_residuals_internal T num_residuals)"
  let ?k = "nat (parameter_block_index_internal T parameter_block_index)"
  let ?n = "parameter_block_size_internal T parameter_block_size"
  let ?x = "take (nat ?n) (parameters M ! ?k)"
  let ?s = "step_size_of ?x relative_step_size"
  let ?ci = "coeff_index (JacobianMatrix_order (kParameterBlockSize T)) ?m (nat ?n)"
  have rm: "(if kNumResiduals T = DYNAMIC then num_residuals else kNumResiduals T) =
      num_residuals_internal T num_residuals"
    by (simp add: num_residuals_internal_def)
  have rk: "(if kParameterBlock T = DYNAMIC then parameter_block_index else kParameterBlock T) =
      parameter_block_index_internal T parameter_block_index"
    by (simp add: parameter_block_index_internal_def)
  have rn: "(if kParameterBlockSize T = DYNAMIC then parameter_block_size
      else kParameterBlockSize T) = ?n"
    by (simp add: parameter_block_size_internal_def)
  from run have loop: "column_loop T functor residuals_at_eval_point ?m ?k ?n ?x ?s 0 M = (True, M')"
    by (simp add: EvaluateJacobianForParameterBlock_def
        NumericDiff_EvaluateJacobianForParameterBlock_def
        NumericDiff0_EvaluateJacobianForParameterBlock_def Let_def split: if_splits)
  from run2 have loop2: "column_loop T functor residuals_at_eval_point ?m ?k ?n ?x ?s 0
      (M\<lparr>jacobian := J2\<rparr>) = (True, M2')"
    by (simp add: EvaluateJacobianForParameterBlock_def
        NumericDiff_EvaluateJacobianForParameterBlock_def
        NumericDiff0_EvaluateJacobianForParameterBlock_def Let_def split: if_splits)
  have pts: "\<exists>new. evaluations M' = evaluations M @ new \<and>
     length new = (if kMethod T = CENTRAL then 2 else 1) * nat ?n \<and>
     (\<forall>e\<in>set new. \<exists>j<nat ?n. \<exists>v. fst e = (parameters M)[?k := (parameters M ! ?k)[j := v]])"
  proof (cases "0 \<le> ?n")
    case True
    from column_loop_points[OF loop _ True refl] obtain new where
      "evaluations M' = evaluations M @ new"
      "\<forall>e\<in>set new. \<exists>j v. j < nat ?n \<and> fst e = x_plus_delta_assign ?k j v (parameters M)"
      "length new = (if kMethod T = CENTRAL then 2 else 1) * nat ?n"
      by auto
    then show ?thesis
      unfolding x_plus_delta_assign_def by (intro exI[of _ new]) blast
  next
    case False
    with loop have "M' = M" by (simp add: column_loop.simps)
    with False show ?thesis by simp
  qed
  from buffer have buf: "?m * nat ?n \<le> length (jacobian M)" unfolding rm rn .
  note j1 = column_loop_jacobian[OF loop _ refl buf]
  have buf2: "?m * nat ?n \<le> length (jacobian (M\<lparr>jacobian := J2\<rparr>))" using buf same by simp
  have x2: "?x = take (nat ?n) (parameters (M\<lparr>jacobian := J2\<rparr>) ! ?k)" by simp
  note j2 = column_loop_jacobian[OF loop2 _ x2 buf2]
  have cells: "\<forall>q<length J2. jacobian M2' ! q =
      (if \<exists>i<?m. \<exists>j<nat ?n. q = ?ci i j then jacobian M' ! q else J2 ! q)"
  proof (intro allI impI)
    fix q assume "q < length J2"
    show "jacobian M2' ! q = (if \<exists>i<?m. \<exists>j<nat ?n. q = ?ci i j then jacobian M' ! q else J2 ! q)"
    proof (cases "\<exists>i<?m. \<exists>j<nat ?n. q = ?ci i j")
      case True
      then obtain i j where ij: "i < ?m" "j < nat ?n" "q = ?ci i j" by blast
      from j1 ij have "quotient_ok T functor residuals_at_eval_point (parameters M) ?k j
          (delta_of ?s j) i (jacobian M' ! q)" by simp
      moreover from j2 ij have "quotient_ok T functor residuals_at_eval_point (parameters M) ?k j
          (delta_of ?s j) i (jacobian M2' ! q)" by simp
      ultimately have "jacobian M2' ! q = jacobian M' ! q" by (rule quotient_ok_unique[symmetric])
      then show ?thesis by (simp only: if_P[OF True])
    next
      case False
      then have "\<forall>j i. nat 0 \<le> j \<and> j < nat ?n \<and> i < ?m \<longrightarrow> q \<noteq> ?ci i j" by blast
      with j2 have "jacobian M2' ! q = jacobian (M\<lparr>jacobian := J2\<rparr>) ! q" by blast
      then have "jacobian M2' ! q = J2 ! q" by simp
      then show ?thesis by (simp only: if_not_P[OF False])
    qed
  qed
  from pts cells show ?thesis unfolding rm rk rn by blast
qed

lemma column_step_jacobian_free:
  assumes "parameters N = parameters M" "evaluations N = evaluations M" "deltas N = deltas M"
  shows "fst (column_step T f r0 rows k cols x s j N) = fst (column_step T f r0 rows k cols x s j M) \<and>
     parameters (snd (column_step T f r0 rows k cols x s j N)) =
       parameters (snd (column_step T f r0 rows k cols x s j M)) \<and>
     evaluations (snd (column_step T f r0 rows k cols x s j N)) =
       evaluations (snd (column_step T f r0 rows k cols x s j M)) \<and>
     deltas (snd (column_step T f r0 rows k cols x s j N)) =
       deltas (snd (column_step T f r0 rows k cols x s j M))"
  using assms
  by (simp add: column_step_def Let_def EvaluateImpl_def
      split: option.splits sum.splits prod.splits)

lemma column_loop_jacobian_free:
  "parameters N = parameters M \<Longrightarrow> evaluations N = evaluations M \<Longrightarrow> deltas N = deltas M \<Longrightarrow>
   fst (column_loop T f r0 rows k n x s j N) = fst (column_loop T f r0 rows k n x s j M) \<and>
   parameters (snd (column_loop T f r0 rows k n x s j N)) =
     parameters (snd (column_loop T f r0 rows k n x s j M)) \<and>
   evaluations (snd (column_loop T f r0 rows k n x s j N)) =
     evaluations (snd (column_loop T f r0 rows k n x s j M)) \<and>
   deltas (snd (column_loop T f r0 rows k n x s j N)) =
     deltas (snd (column_loop T f r0 rows k n x s j M))"
proof (induction T f r0 rows k n x s j M arbitrary: N rule: column_loop.induct)
  case (1 T f r0 rows k n x s j M)
  show ?case
  proof (cases "j < n")
    case False
    with "1.prems" show ?thesis by (simp add: column_loop.simps)
  next
    case True
    obtain b M1 where st: "column_step T f r0 rows k (nat n) x s (nat j) M = (b, M1)"
      by (cases "column_step T f r0 rows k (nat n) x s (nat j) M")
    obtain b' N1 where st': "column_step T f r0 rows k (nat n) x s (nat j) N = (b', N1)"
      by (cases "column_step T f r0 rows k (nat n) x s (nat j) N")
    from column_step_jacobian_free[OF "1.prems", of T f r0 rows k "nat n" x s "nat j"] st st'
    have eq: "b' = b" "parameters N1 = parameters M1" "evaluations N1 = evaluations M1"
      "deltas N1 = deltas M1" by simp_all
    show ?thesis
    proof (cases b)
      case False
      with True st st' eq show ?thesis
        by (simp add: column_loop.simps[of T f r0 rows k n x s j])
    next
      case b: True
      from "1.IH"[OF True st[symmetric] _ eq(2,3,4)] b
      have "fst (column_loop T f r0 rows k n x s (j + 1) N1) =
          fst (column_loop T f r0 rows k n x s (j + 1) M1) \<and>
        parameters (snd (column_loop T f r0 rows k n x s (j + 1) N1)) =
          parameters (snd (column_loop T f r0 rows k n x s (j + 1) M1)) \<and>
        evaluations (snd (column_loop T f r0 rows k n x s (j + 1) N1)) =
          evaluations (snd (column_loop T f r0 rows k n x s (j + 1) M1)) \<and>
        deltas (snd (column_loop T f r0 rows k n x s (j + 1) N1)) =
          deltas (snd (column_loop T f r0 rows k n x s (j + 1) M1))" by simp
      with True st st' eq b show ?thesis
        by (simp add: column_loop.simps[of T f r0 rows k n x s j])
    qed
  qed
qed

lemma call_jacobian_free:
  assumes "EvaluateJacobianForParameterBlock T functor residuals_at_eval_point
      relative_step_size num_residuals parameter_block_index parameter_block_size M =
      Inr (b, M')"
  shows "\<exists>M2'. EvaluateJacobianForParameterBlock T functor residuals_at_eval_point
      relative_step_size num_residuals parameter_block_index parameter_block_size
      (M\<lparr>jacobian := J2\<rparr>) = Inr (b, M2')"
proof -
  let ?m = "nat (num_residuals_internal T num_residuals)"
  let ?k = "nat (parameter_block_index_internal T parameter_block_index)"
  let ?n = "parameter_block_size_internal T parameter_block_size"
  let ?x = "take (nat ?n) (parameters M ! ?k)"
  let ?s = "step_size_of ?x relative_step_size"
  from assms have z: "kParameterBlockSize T \<noteq> 0"
    and loop: "column_loop T functor residuals_at_eval_point ?m ?k ?n ?x ?s 0 M = (b, M')"
    by (simp_all add: EvaluateJacobianForParameterBlock_def
        NumericDiff_EvaluateJacobianForParameterBlock_def
        NumericDiff0_EvaluateJacobianForParameterBlock_def Let_def split: if_splits)
  have "fst (column_loop T functor residuals_at_eval_point ?m ?k ?n ?x ?s 0
      (M\<lparr>jacobian := J2\<rparr>)) = b"
    using column_loop_jacobian_free[of "M\<lparr>jacobian := J2\<rparr>" M T "functor"
        residuals_at_eval_point "?m" "?k" "?n" "?x" "?s" 0] loop by simp
  then obtain M2' where "column_loop T functor residuals_at_eval_point ?m ?k ?n ?x ?s 0
      (M\<lparr>jacobian := J2\<rparr>) = (b, M2')"
    by (cases "column_loop T functor residuals_at_eval_point ?m ?k ?n ?x ?s 0
      (M\<lparr>jacobian := J2\<rparr>)") simp
  with z show ?thesis
    by (intro exI[of _ M2'])
      (simp add: EvaluateJacobianForParameterBlock_def
        NumericDiff_EvaluateJacobianForParameterBlock_def Let_def)
qed

text \<open>
  Claim C7.  A call that returns \<^verbatim>\<open>true\<close> has worked on the resolved values, each of them
  the template constant unless that is \<^const>\<open>DYNAMIC\<close> and the run-time argument when
  it is.  It has made one evaluation (two for CENTRAL) for every coordinate below the
  resolved block size.  Every evaluation was at the parameters with one such coordinate
  of the block at the resolved index replaced.  And of the jacobian buffer it has
  overwritten exactly the coefficients of the view with the resolved number of residuals
  as rows and the resolved block size as columns: whatever the buffer held before, the
  call returns \<^verbatim>\<open>true\<close>, these cells end with the same values, and every other cell
  keeps what it held.
\<close>

theorem call_works_on_resolved_sizes:
  assumes run: "EvaluateJacobianForParameterBlock T functor residuals_at_eval_point
      relative_step_size num_residuals parameter_block_index parameter_block_size M =
      Inr (True, M')"
    and buffer: "nat (if kNumResiduals T = DYNAMIC then num_residuals else kNumResiduals T) *
      nat (if kParameterBlockSize T = DYNAMIC then parameter_block_size
           else kParameterBlockSize T) \<le> length (jacobian M)"
  shows "(\<exists>new. evaluations M' = evaluations M @ new \<and>
     length new = (if kMethod T = CENTRAL then 2 else 1) *
       nat (if kParameterBlockSize T = DYNAMIC then parameter_block_size
            else kParameterBlockSize T) \<and>
     (\<forall>e\<in>set new.
        \<exists>j<nat (if kParameterBlockSize T = DYNAMIC then parameter_block_size
                 else kParameterBlockSize T).
        \<exists>v. fst e =
          (parameters M)
            [nat (if kParameterBlock T = DYNAMIC then parameter_block_index
                  else kParameterBlock T) :=
               (parameters M !
                  nat (if kParameterBlock T = DYNAMIC then parameter_block_index
                       else kParameterBlock T))[j := v]])) \<and>
   (\<forall>J2. length J2 = length (jacobian M) \<longrightarrow>
     (\<exists>M2'. EvaluateJacobianForParameterBlock T functor residuals_at_eval_point
        relative_step_size num_residuals parameter_block_index parameter_block_size
        (M\<lparr>jacobian := J2\<rparr>) = Inr (True, M2') \<and>
      (\<forall>q<length J2.
        jacobian M2' ! q =
          (if \<exists>i<nat (if kNumResiduals T = DYNAMIC then num_residuals else kNumResiduals T).
                \<exists>j<nat (if kParameterBlockSize T = DYNAMIC then parameter_block_size
                         else kParameterBlockSize T).
                  q = coeff_index (JacobianMatrix_order (kParameterBlockSize T))
                        (nat (if kNumResiduals T = DYNAMIC then num_residuals
                              else kNumResiduals T))
                        (nat (if kParameterBlockSize T = DYNAMIC then parameter_block_size
                              else kParameterBlockSize T)) i j
           then jacobian M' ! q else J2 ! q))))"
proof (intro conjI allI impI)
  have "EvaluateJacobianForParameterBlock T functor residuals_at_eval_point
      relative_step_size num_residuals parameter_block_index parameter_block_size
      (M\<lparr>jacobian := jacobian M\<rparr>) = Inr (True, M')" using run by simp
  from overwritten_cells_two_runs[OF run this buffer refl]
  show "\<exists>new. evaluations M' = evaluations M @ new \<and>
     length new = (if kMethod T = CENTRAL then 2 else 1) *
       nat (if kParameterBlockSize T = DYNAMIC then parameter_block_size
            else kParameterBlockSize T) \<and>
     (\<forall>e\<in>set new.
        \<exists>j<nat (if kParameterBlockSize T = DYNAMIC then parameter_block_size
                 else kParameterBlockSize T).
        \<exists>v. fst e =
          (parameters M)
            [nat (if kParameterBlock T = DYNAMIC then parameter_block_index
                  else kParameterBlock T) :=
               (parameters M !
                  nat (if kParameterBlock T = DYNAMIC then parameter_block_index
                       else kParameterBlock T))[j := v]])"
    by blast
next
  fix J2 :: "real list" assume len: "length J2 = length (jacobian M)"
  from call_jacobian_free[OF run, of J2] obtain M2' where
    run2: "EvaluateJacobianForParameterBlock T functor residuals_at_eval_point
        relative_step_size num_residuals parameter_block_index parameter_block_size
        (M\<lparr>jacobian := J2\<rparr>) = Inr (True, M2')" by blast
  from overwritten_cells_two_runs[OF run run2 buffer len] run2
  show "\<exists>M2'. EvaluateJacobianForParameterBlock T functor residuals_at_eval_point
        relative_step_size num_residuals parameter_block_index parameter_block_size
        (M\<lparr>jacobian := J2\<rparr>) = Inr (True, M2') \<and>
      (\<forall>q<length J2.
        jacobian M2' ! q =
          (if \<exists>i<nat (if kNumResiduals T = DYNAMIC then num_residuals else kNumResiduals T).
                \<exists>j<nat (if kParameterBlockSize T = DYNAMIC then parameter_block_size
                         else kParameterBlockSize T).
                  q = coeff_index (JacobianMatrix_order (kParameterBlockSize T))
                        (nat (if kNumResiduals T = DYNAMIC then num_residuals
                              else kNumResiduals T))
                        (nat (if kParameterBlockSize T = DYNAMIC then parameter_block_size
                              else kParameterBlockSize T)) i j
           then jacobian M' ! q else J2 ! q))"
    by blast
qed

theorem call_works_on_resolved_sizes_witness:
  "EvaluateJacobianForParameterBlock ex_dynamic ex_functor1 [] (1 / 1000000) 2 1 2 ex_two_blocks =
     Inr (True, \<lparr>parameters = [[7], [2, 3]], jacobian = [4, 0, 3, 2, 5],
       evaluations = [([[7], [1000001 / 500000, 3]], True), ([[7], [999999 / 500000, 3]], True),
          ([[7], [2, 3000003 / 1000000]], True), ([[7], [2, 2999997 / 1000000]], True)],
       deltas = [1 / 500000, 3 / 1000000]\<rparr>) \<and>
   nat (if kNumResiduals ex_dynamic = DYNAMIC then 2 else kNumResiduals ex_dynamic) *
     nat (if kParameterBlockSize ex_dynamic = DYNAMIC then 2
          else kParameterBlockSize ex_dynamic) \<le> length (jacobian ex_two_blocks) \<and>
   length [9, 9, 9, 9, 9 :: real] = length (jacobian ex_two_blocks) \<and>
   (\<exists>new. evaluations \<lparr>parameters = [[7], [2, 3]], jacobian = [4, 0, 3, 2, 5],
       evaluations = [([[7], [1000001 / 500000, 3]], True), ([[7], [999999 / 500000, 3]], True),
          ([[7], [2, 3000003 / 1000000]], True), ([[7], [2, 2999997 / 1000000]], True)],
       deltas = [1 / 500000, 3 / 1000000]\<rparr> = evaluations ex_two_blocks @ new \<and>
     length new = (if kMethod ex_dynamic = CENTRAL then 2 else 1) *
       nat (if kParameterBlockSize ex_dynamic = DYNAMIC then 2
            else kParameterBlockSize ex_dynamic) \<and>
     (\<forall>e\<in>set new.
        \<exists>j<nat (if kParameterBlockSize ex_dynamic = DYNAMIC then 2
                 else kParameterBlockSize ex_dynamic).
        \<exists>v. fst e =
          (parameters ex_two_blocks)
            [nat (if kParameterBlock ex_dynamic = DYNAMIC then 1
                  else kParameterBlock ex_dynamic) :=
               (parameters ex_two_blocks !
                  nat (if kParameterBlock ex_dynamic = DYNAMIC then 1
                       else kParameterBlock ex_dynamic))[j := v]])) \<and>
   (\<exists>M2'. EvaluateJacobianForParameterBlock ex_dynamic ex_functor1 []
        (1 / 1000000) 2 1 2
        (ex_two_blocks\<lparr>jacobian := [9, 9, 9, 9, 9]\<rparr>) = Inr (True, M2') \<and>
      (\<forall>q<length [9, 9, 9, 9, 9 :: real].
        jacobian M2' ! q =
          (if \<exists>i<nat (if kNumResiduals ex_dynamic = DYNAMIC then 2 else kNumResiduals ex_dynamic).
                \<exists>j<nat (if kParameterBlockSize ex_dynamic = DYNAMIC then 2
                         else kParameterBlockSize ex_dynamic).
                  q = coeff_index (JacobianMatrix_order (kParameterBlockSize ex_dynamic))
                        (nat (if kNumResiduals ex_dynamic = DYNAMIC then 2
                              else kNumResiduals ex_dynamic))
                        (nat (if kParameterBlockSize ex_dynamic = DYNAMIC then 2
                              else kParameterBlockSize ex_dynamic)) i j
           then jacobian \<lparr>parameters = [[7], [2, 3]], jacobian = [4, 0, 3, 2, 5],
       evaluations = [([[7], [1000001 / 500000, 3]], True), ([[7], [999999 / 500000, 3]], True),
          ([[7], [2, 3000003 / 1000000]], True), ([[7], [2, 2999997 / 1000000]], True)],
       deltas = [1 / 500000, 3 / 1000000]\<rparr> ! q else [9, 9, 9, 9, 9] ! q)))"
proof -
  have buffer: "nat (if kNumResiduals ex_dynamic = DYNAMIC then 2 else kNumResiduals ex_dynamic) *
     nat (if kParameterBlockSize ex_dynamic = DYNAMIC then 2
          else kParameterBlockSize ex_dynamic) \<le> length (jacobian ex_two_blocks)"
    by (simp add: ex_dynamic_def ex_two_blocks_def)
  have len: "length [9, 9, 9, 9, 9 :: real] = length (jacobian ex_two_blocks)"
    by (simp add: ex_two_blocks_def)
  note th = call_works_on_resolved_sizes[OF ex_two_blocks_run buffer]
  note c1 = th[THEN conjunct1]
  note c2 = th[THEN conjunct2, THEN spec, THEN mp, OF len]
  show ?thesis
    apply (rule conjI, rule ex_two_blocks_run)
    apply (rule conjI, rule buffer)
    apply (rule conjI, rule len)
    apply (rule conjI, rule c1)
    apply (rule c2)
    done
qed

end
